theory Spec2Isabelle
  imports
    Main
    "HOL-Library.Word"
    "HOL-Library.Char_ord"
    "HOL-Library.List_Lexorder"
    "HOL-Library.Sublist"
begin

unbundle bit_operations_syntax

section \<open>Strings and numbers of the host language\<close>

text \<open>
  Integers of the program (time stamps, hash values, sizes to compare) are \<^typ>\<open>int\<close>;
  counters that only grow from zero are \<^typ>\<open>nat\<close>. A JavaScript string is modelled as a
  \<^typ>\<open>string\<close>: a list of code units, each below 256. Classification of code units follows
  the regular expressions and string methods used in \<^verbatim>\<open>src/lib/utils.ts\<close>.
\<close>

definition isUpperAZ :: "char \<Rightarrow> bool" where
  "isUpperAZ c \<longleftrightarrow> 65 \<le> (of_char c :: nat) \<and> (of_char c :: nat) \<le> 90"

definition isLowerAZ :: "char \<Rightarrow> bool" where
  "isLowerAZ c \<longleftrightarrow> 97 \<le> (of_char c :: nat) \<and> (of_char c :: nat) \<le> 122"

definition isDigit :: "char \<Rightarrow> bool" where
  "isDigit c \<longleftrightarrow> 48 \<le> (of_char c :: nat) \<and> (of_char c :: nat) \<le> 57"

text \<open>The class \<^verbatim>\<open>\s\<close>, which is also what \<^verbatim>\<open>trim()\<close> strips: TAB, LF, VT, FF, CR, SP, NBSP.\<close>

definition isSpace :: "char \<Rightarrow> bool" where
  "isSpace c \<longleftrightarrow> (of_char c :: nat) \<in> {9, 10, 11, 12, 13, 32, 160}"

text \<open>\<^verbatim>\<open>toLowerCase\<close> on one code unit below 256: A-Z and the Latin-1 capitals move up by 32.\<close>

definition toLowerChar :: "char \<Rightarrow> char" where
  "toLowerChar c =
     (let n = (of_char c :: nat)
      in if (65 \<le> n \<and> n \<le> 90) \<or> (192 \<le> n \<and> n \<le> 222 \<and> n \<noteq> 215)
         then char_of (n + 32) else c)"

text \<open>\<^verbatim>\<open>toUpperCase\<close> as \<^verbatim>\<open>camelCase\<close> uses it: only ever applied to a letter a-z.\<close>

definition toUpperChar :: "char \<Rightarrow> char" where
  "toUpperChar c = (if isLowerAZ c then char_of ((of_char c :: nat) - 32) else c)"

definition toLowerCase :: "string \<Rightarrow> string" where
  "toLowerCase s = map toLowerChar s"

definition startsWith :: "string \<Rightarrow> string \<Rightarrow> bool" where
  "startsWith s p \<longleftrightarrow> take (length p) s = p"

fun joinWith :: "string \<Rightarrow> string list \<Rightarrow> string" where
  "joinWith sep [] = []"
| "joinWith sep [x] = x"
| "joinWith sep (x # y # ys) = x @ sep @ joinWith sep (y # ys)"

definition trim :: "string \<Rightarrow> string" where
  "trim s = rev (dropWhile isSpace (rev (dropWhile isSpace s)))"

text \<open>\<^verbatim>\<open>slice(-k)\<close>: the last \<open>k\<close> code units, or the whole string when it is shorter.\<close>

definition sliceLast :: "nat \<Rightarrow> string \<Rightarrow> string" where
  "sliceLast k s = drop (length s - k) s"

subsection \<open>Integers in a radix\<close>

definition digitChar :: "nat \<Rightarrow> char" where
  "digitChar d = ''0123456789abcdefghijklmnopqrstuvwxyz'' ! d"

text \<open>
  \<^verbatim>\<open>n.toString(b)\<close> for an integer \<open>n\<close> and a radix \<open>b\<close> from 2 to 36: \<open>toRadix\<close> gives the
  digits of a non-negative \<open>n\<close>, \<open>integerToString\<close> puts the sign before them.
\<close>

function toRadix :: "int \<Rightarrow> int \<Rightarrow> string" where
  "toRadix b n =
     (if b < 2 \<or> n < b then [digitChar (nat n)]
      else toRadix b (n div b) @ [digitChar (nat (n mod b))])"
  by pat_completeness auto
termination
  by (relation "measure (\<lambda>(b, n). nat n)") (auto intro!: int_div_less_self)

definition integerToString :: "int \<Rightarrow> int \<Rightarrow> string" where
  "integerToString b n = (if n < 0 then ''-'' @ toRadix b (- n) else toRadix b n)"

declare toRadix.simps [simp del]

subsection \<open>Numbers\<close>

text \<open>
  A JavaScript number is \<^verbatim>\<open>NaN\<close>, an infinity, or finite. A finite number is given by its
  shortest decimal that reads back as the same double, \<open>Finite m e\<close> standing for
  \<open>m / 10 ^ e\<close>; trailing zeros of \<open>m\<close> do not matter. \<^verbatim>\<open>String(x)\<close> prints the significant
  digits \<open>s\<close> of that decimal (there are \<open>k\<close> of them) around the position \<open>n\<close> of the decimal
  point: plainly when \<open>-6 < n \<le> 21\<close>, and otherwise as one digit, the remaining digits as a
  fraction, and the exponent \<open>n - 1\<close> with its sign. Rounding a decimal of more digits to a
  double is outside the model: the decimal given is taken to be the shortest one.
\<close>

datatype number = NaN | PosInfinity | NegInfinity | Finite int nat

fun isFiniteNumber :: "number \<Rightarrow> bool" where
  "isFiniteNumber (Finite m e) = True"
| "isFiniteNumber _ = False"

definition stripTrailingZeros :: "string \<Rightarrow> string" where
  "stripTrailingZeros s = rev (dropWhile (\<lambda>c. c = CHR ''0'') (rev s))"

definition zeros :: "nat \<Rightarrow> string" where
  "zeros n = replicate n (CHR ''0'')"

definition exponentPart :: "int \<Rightarrow> string" where
  "exponentPart x = ''e'' @ (if x < 0 then ''-'' else ''+'') @ toRadix 10 \<bar>x\<bar>"

definition finiteToString :: "int \<Rightarrow> nat \<Rightarrow> string" where
  "finiteToString m e =
     (if m = 0 then ''0''
      else
        let ds = toRadix 10 \<bar>m\<bar>;
            s = stripTrailingZeros ds;
            k = int (length s);
            n = int (length ds) - int e;
            body =
              (if k \<le> n \<and> n \<le> 21 then s @ zeros (nat (n - k))
               else if 0 < n \<and> n \<le> 21 then take (nat n) s @ ''.'' @ drop (nat n) s
               else if - 6 < n \<and> n \<le> 0 then ''0.'' @ zeros (nat (- n)) @ s
               else if k = 1 then s @ exponentPart (n - 1)
               else take 1 s @ ''.'' @ drop 1 s @ exponentPart (n - 1))
        in (if m < 0 then ''-'' else []) @ body)"

fun numberToString :: "number \<Rightarrow> string" where
  "numberToString NaN = ''NaN''"
| "numberToString PosInfinity = ''Infinity''"
| "numberToString NegInfinity = ''-Infinity''"
| "numberToString (Finite m e) = finiteToString m e"

section \<open>Values and objects\<close>

text \<open>
  The values a style description can hold at run time. An object is the list of its own
  properties in insertion order; keys of a well-formed object are distinct.
\<close>

datatype jsvalue =
    Undefined
  | Null
  | Bool bool
  | Num number
  | Str string
  | Obj "(string \<times> jsvalue) list"

fun isObj :: "jsvalue \<Rightarrow> bool" where
  "isObj (Obj ps) = True"
| "isObj _ = False"

text \<open>\<^verbatim>\<open>String(value)\<close>.\<close>

fun jsString :: "jsvalue \<Rightarrow> string" where
  "jsString Undefined = ''undefined''"
| "jsString Null = ''null''"
| "jsString (Bool b) = (if b then ''true'' else ''false'')"
| "jsString (Num n) = numberToString n"
| "jsString (Str s) = s"
| "jsString (Obj ps) = ''[object Object]''"

text \<open>The \<^verbatim>\<open>typeof\<close> operator; \<^verbatim>\<open>typeof null\<close> is \<^verbatim>\<open>'object'\<close>.\<close>

fun typeOf :: "jsvalue \<Rightarrow> string" where
  "typeOf Undefined = ''undefined''"
| "typeOf Null = ''object''"
| "typeOf (Bool b) = ''boolean''"
| "typeOf (Num n) = ''number''"
| "typeOf (Str s) = ''string''"
| "typeOf (Obj ps) = ''object''"

text \<open>
  An array index is a canonical decimal numeral below \<open>2\<^sup>3\<^sup>2 - 1\<close>. Property enumeration
  (\<^verbatim>\<open>Object.keys\<close>, \<^verbatim>\<open>Object.entries\<close>) lists the array-index keys first, in ascending
  numeric order, and then all other keys in insertion order.
\<close>

fun decimalValue :: "string \<Rightarrow> int" where
  "decimalValue s = foldl (\<lambda>acc c. 10 * acc + ((of_char c :: int) - 48)) 0 s"

definition isArrayIndex :: "string \<Rightarrow> bool" where
  "isArrayIndex k \<longleftrightarrow>
     k \<noteq> [] \<and> list_all isDigit k \<and> (k = ''0'' \<or> hd k \<noteq> CHR ''0'')
     \<and> length k \<le> 10 \<and> decimalValue k < 4294967295"

definition ownEntries :: "(string \<times> jsvalue) list \<Rightarrow> (string \<times> jsvalue) list" where
  "ownEntries ps =
     sort_key (\<lambda>(k, v). decimalValue k) (filter (\<lambda>(k, v). isArrayIndex k) ps)
     @ filter (\<lambda>(k, v). \<not> isArrayIndex k) ps"

text \<open>The indexed characters of a string: \<^verbatim>\<open>Object.entries('ab')\<close> is \<^verbatim>\<open>[['0','a'],['1','b']]\<close>.\<close>

fun stringEntries :: "nat \<Rightarrow> string \<Rightarrow> (string \<times> jsvalue) list" where
  "stringEntries i [] = []"
| "stringEntries i (c # cs) = (toRadix 10 (int i), Str [c]) # stringEntries (Suc i) cs"

text \<open>
  \<^verbatim>\<open>Object.entries(value)\<close> for a value that is neither \<^verbatim>\<open>null\<close> nor \<^verbatim>\<open>undefined\<close> (for
  those it throws; every caller below checks first). Numbers and booleans have no own
  enumerable properties.
\<close>

fun objectEntries :: "jsvalue \<Rightarrow> (string \<times> jsvalue) list" where
  "objectEntries (Obj ps) = ownEntries ps"
| "objectEntries (Str s) = stringEntries 0 s"
| "objectEntries _ = []"

definition objectKeys :: "jsvalue \<Rightarrow> string list" where
  "objectKeys v = map fst (objectEntries v)"

section \<open>Utility functions (\<^verbatim>\<open>src/lib/utils.ts\<close>)\<close>

text \<open>
  \<^verbatim>\<open>generateClassName(prefix)\<close>, the prefix being \<open>pfx\<close>. The two sources of nondeterminism
  are inputs of the model: \<open>randomStr\<close> is \<^verbatim>\<open>Math.random().toString(36).substr(2, 8)\<close> and
  \<open>now\<close> is \<^verbatim>\<open>Date.now()\<close>.
\<close>

definition generateClassName :: "string \<Rightarrow> int \<Rightarrow> string \<Rightarrow> string" where
  "generateClassName randomStr now pfx =
     (let timeStr = sliceLast 4 (integerToString 36 now)
      in pfx @ ''-'' @ randomStr @ timeStr)"

text \<open>
  \<^verbatim>\<open>kebabCase\<close>: the global replacement of \<^verbatim>\<open>/([a-z0-9]|(?=[A-Z]))([A-Z])/\<close> by \<^verbatim>\<open>'$1-$2'\<close>,
  scanning left to right, then \<^verbatim>\<open>toLowerCase\<close>. The first alternative consumes a lower-case
  letter or digit and the capital after it; the second consumes a capital alone.
\<close>

fun kebabReplace :: "string \<Rightarrow> string" where
  "kebabReplace [] = []"
| "kebabReplace [c] = (if isUpperAZ c then [CHR ''-'', c] else [c])"
| "kebabReplace (c # d # rest) =
     (if (isLowerAZ c \<or> isDigit c) \<and> isUpperAZ d then c # CHR ''-'' # d # kebabReplace rest
      else if isUpperAZ c then CHR ''-'' # c # kebabReplace (d # rest)
      else c # kebabReplace (d # rest))"

definition kebabCase :: "string \<Rightarrow> string" where
  "kebabCase str = toLowerCase (kebabReplace str)"

text \<open>\<^verbatim>\<open>camelCase\<close>: every \<^verbatim>\<open>-x\<close> with \<open>x\<close> in a-z becomes the capital of \<open>x\<close>.\<close>

fun camelCase :: "string \<Rightarrow> string" where
  "camelCase [] = []"
| "camelCase [c] = [c]"
| "camelCase (c # d # rest) =
     (if c = CHR ''-'' \<and> isLowerAZ d then toUpperChar d # camelCase rest
      else c # camelCase (d # rest))"

definition isNumber :: "jsvalue \<Rightarrow> bool" where
  "isNumber v = (case v of Num n \<Rightarrow> isFiniteNumber n | _ \<Rightarrow> False)"

definition PIXEL_PROPERTIES :: "string list" where
  "PIXEL_PROPERTIES =
     [''width'', ''height'', ''minWidth'', ''maxWidth'', ''minHeight'', ''maxHeight'',
      ''margin'', ''marginTop'', ''marginRight'', ''marginBottom'', ''marginLeft'',
      ''padding'', ''paddingTop'', ''paddingRight'', ''paddingBottom'', ''paddingLeft'',
      ''top'', ''right'', ''bottom'', ''left'',
      ''borderWidth'', ''borderTopWidth'', ''borderRightWidth'', ''borderBottomWidth'',
      ''borderLeftWidth'',
      ''borderRadius'', ''borderTopLeftRadius'', ''borderTopRightRadius'',
      ''borderBottomRightRadius'', ''borderBottomLeftRadius'',
      ''fontSize'', ''lineHeight'', ''letterSpacing'', ''wordSpacing'',
      ''textIndent'', ''outlineWidth'', ''outlineOffset'',
      ''gridGap'', ''gridColumnGap'', ''gridRowGap'', ''columnGap'', ''rowGap'',
      ''strokeWidth'', ''tabSize'']"

definition UNITLESS_PROPERTIES :: "string list" where
  "UNITLESS_PROPERTIES =
     [''opacity'', ''zIndex'', ''fontWeight'', ''lineHeight'', ''zoom'', ''order'',
      ''flex'', ''flexGrow'', ''flexShrink'', ''flexOrder'',
      ''columnCount'', ''columns'', ''orphans'', ''widows'',
      ''animationIterationCount'', ''fillOpacity'', ''strokeOpacity'',
      ''stopOpacity'', ''strokeDasharray'', ''strokeDashoffset'']"

text \<open>The property name as \<^verbatim>\<open>addUnit\<close> looks it up: camel-cased when it contains a hyphen.\<close>

definition camelProperty :: "string \<Rightarrow> string" where
  "camelProperty property = (if CHR ''-'' \<in> set property then camelCase property else property)"

definition addUnit :: "string \<Rightarrow> jsvalue \<Rightarrow> string" where
  "addUnit property v =
     (case v of
        Str s \<Rightarrow> s
      | _ \<Rightarrow>
          if \<not> isNumber v then jsString v
          else if camelProperty property \<in> set UNITLESS_PROPERTIES then jsString v
          else if startsWith (camelProperty property) ''motionDuration'' then jsString v @ ''ms''
          else if camelProperty property \<in> set PIXEL_PROPERTIES then jsString v @ ''px''
          else jsString v @ ''px'')"

text \<open>
  \<^verbatim>\<open>escapeSelector\<close>: a backslash goes before each of
  \<^verbatim>\<open>! " # $ % & ' ( ) * + , . / : ; < = > ? @ [ \ ] ^ ` { | } ~\<close>, given here by code.
\<close>

definition selectorSpecials :: "nat list" where
  "selectorSpecials =
     [33, 34, 35, 36, 37, 38, 39, 40, 41, 42, 43, 44, 46, 47, 58, 59, 60, 61, 62, 63, 64,
      91, 92, 93, 94, 96, 123, 124, 125, 126]"

definition escapeSelector :: "string \<Rightarrow> string" where
  "escapeSelector selector =
     concat (map (\<lambda>c. if (of_char c :: nat) \<in> set selectorSpecials then [CHR 0x5C, c] else [c])
                 selector)"

text \<open>
  \<^verbatim>\<open>normalizeValue\<close>: trim, collapse each run of white space to one space, and put the
  colour function names in lower case. \<open>collapseSpaces\<close> carries whether the previous code
  unit was white space.
\<close>

fun collapseSpaces :: "bool \<Rightarrow> string \<Rightarrow> string" where
  "collapseSpaces prev [] = []"
| "collapseSpaces prev (c # cs) =
     (if isSpace c then (if prev then collapseSpaces True cs else CHR '' '' # collapseSpaces True cs)
      else c # collapseSpaces False cs)"

definition colourFunctions :: "string list" where
  "colourFunctions =
     [''rgb'', ''rgba'', ''hsl'', ''hsla'', ''hwb'', ''lab'', ''lch'', ''oklab'', ''oklch'']"

text \<open>The alternative of \<^verbatim>\<open>(rgb|rgba|...|oklch)\(\<close> that matches at the head of \<open>s\<close>, ignoring case.\<close>

definition colourMatch :: "string \<Rightarrow> string option" where
  "colourMatch s =
     find (\<lambda>name. toLowerCase (take (length name) s) = name
                   \<and> list_all (\<lambda>c. (of_char c :: nat) < 128) (take (length name) s)
                   \<and> take 1 (drop (length name) s) = ''('')
          colourFunctions"

function lowerColourFunctions :: "string \<Rightarrow> string" where
  "lowerColourFunctions [] = []"
| "lowerColourFunctions (c # cs) =
     (case colourMatch (c # cs) of
        Some name \<Rightarrow> name @ ''('' @ lowerColourFunctions (drop (length name) cs)
      | None \<Rightarrow> c # lowerColourFunctions cs)"
  by pat_completeness auto
termination
  by (relation "measure length") auto

definition normalizeValue :: "string \<Rightarrow> string" where
  "normalizeValue v = lowerColourFunctions (collapseSpaces False (trim v))"

subsection \<open>The fingerprint\<close>

text \<open>
  \<^verbatim>\<open>JSON.stringify\<close> quotes a string: the quote, the backslash and the control characters
  are escaped.
\<close>

definition quoteChar :: "char \<Rightarrow> string" where
  "quoteChar c =
     (let n = (of_char c :: nat)
      in if n = 34 then [CHR 0x5C, CHR 0x22]
         else if n = 92 then [CHR 0x5C, CHR 0x5C]
         else if n = 8 then [CHR 0x5C, CHR ''b'']
         else if n = 9 then [CHR 0x5C, CHR ''t'']
         else if n = 10 then [CHR 0x5C, CHR ''n'']
         else if n = 12 then [CHR 0x5C, CHR ''f'']
         else if n = 13 then [CHR 0x5C, CHR ''r'']
         else if n < 32 then [CHR 0x5C, CHR ''u'', CHR ''0'', CHR ''0'',
                              digitChar (n div 16), digitChar (n mod 16)]
         else [c])"

definition quoteJSONString :: "string \<Rightarrow> string" where
  "quoteJSONString s = [CHR 0x22] @ concat (map quoteChar s) @ [CHR 0x22]"

text \<open>
  \<^verbatim>\<open>JSON.stringify(value, K)\<close> with an array \<open>K\<close> of keys as replacer: at every depth an
  object is serialised as its properties named in \<open>K\<close>, in the order of \<open>K\<close>; a property that
  is absent or \<^verbatim>\<open>undefined\<close> is left out. \<open>None\<close> is the result \<^verbatim>\<open>undefined\<close>.
\<close>

function stringify :: "string list \<Rightarrow> jsvalue \<Rightarrow> string option" where
  "stringify K Undefined = None"
| "stringify K Null = Some ''null''"
| "stringify K (Bool b) = Some (if b then ''true'' else ''false'')"
| "stringify K (Num n) = Some (if isFiniteNumber n then numberToString n else ''null'')"
| "stringify K (Str s) = Some (quoteJSONString s)"
| "stringify K (Obj ps) =
     Some (''{''
       @ joinWith '',''
           (concat (map (\<lambda>k. case map_of ps k of
                                None \<Rightarrow> []
                              | Some v \<Rightarrow> (case stringify K v of
                                            None \<Rightarrow> []
                                          | Some t \<Rightarrow> [quoteJSONString k @ '':'' @ t])) K))
       @ ''}'')"
  by pat_completeness auto
termination
proof (relation "measure (\<lambda>(K, v). size v)")
  show "wf (measure (\<lambda>(K, v). size v))" by simp
next
  fix K :: "string list" and ps :: "(string \<times> jsvalue) list" and k v
  assume "map_of ps k = Some v"
  then have "(k, v) \<in> set ps" by (rule map_of_SomeD)
  then have "size v < Suc (size_list (size_prod (\<lambda>_. 0) size) ps)"
    by (induction ps) auto
  then show "((K, v), (K, Obj ps)) \<in> measure (\<lambda>(K, v). size v)" by simp
qed

text \<open>
  The replacer array of \<^verbatim>\<open>JSON.stringify\<close> is read without repetitions, the first
  occurrence kept.
\<close>

fun propertyList :: "string list \<Rightarrow> string list" where
  "propertyList [] = []"
| "propertyList (k # ks) = k # propertyList (filter (\<lambda>x. x \<noteq> k) ks)"

fun truthy :: "jsvalue \<Rightarrow> bool" where
  "truthy Undefined = False"
| "truthy Null = False"
| "truthy (Bool b) = b"
| "truthy (Num (Finite m e)) = (m \<noteq> 0)"
| "truthy (Num NaN) = False"
| "truthy (Num _) = True"
| "truthy (Str s) = (s \<noteq> [])"
| "truthy (Obj ps) = True"

text \<open>
  \<^verbatim>\<open>hashString\<close>: \<^verbatim>\<open>hash = ((hash << 5) - hash) + char; hash = hash & hash\<close> keeps the low 32
  bits as a signed integer, so the loop is arithmetic on a 32-bit word; the result is the
  absolute value of the signed reading, in radix 36.
\<close>

definition hashStep :: "32 word \<Rightarrow> char \<Rightarrow> 32 word" where
  "hashStep hash c = (push_bit 5 hash - hash) + of_nat (of_char c)"

definition hashString :: "string \<Rightarrow> string" where
  "hashString str =
     (if length str = 0 then ''0''
      else toRadix 36 \<bar>sint (foldl hashStep 0 str)\<bar>)"

text \<open>
  What can be thrown: a \<^verbatim>\<open>TypeError\<close> of the run time, the two errors \<^verbatim>\<open>css\<close> throws itself
  (no argument for a style function, a style object that is not an object), and whatever
  a style function of the caller throws.
\<close>

datatype error = TypeError | ParamsRequired | InvalidStyles | UserError

text \<open>
  \<^verbatim>\<open>JSON.stringify(x, Object.keys(x).sort())\<close>; \<^verbatim>\<open>Object.keys\<close> throws on \<^verbatim>\<open>null\<close> and on
  \<^verbatim>\<open>undefined\<close>. The sort is the default one, by code units.
\<close>

definition stringifySorted :: "jsvalue \<Rightarrow> error + string" where
  "stringifySorted x =
     (if x = Undefined \<or> x = Null then Inl TypeError
      else Inr (case stringify (propertyList (sort (objectKeys x))) x of
                  Some t \<Rightarrow> t
                | None \<Rightarrow> ''undefined''))"

text \<open>\<^verbatim>\<open>createCacheKey(data, options)\<close>; an absent \<open>options\<close> is \<^const>\<open>Undefined\<close>.\<close>

definition createCacheKey :: "jsvalue \<Rightarrow> jsvalue \<Rightarrow> error + string" where
  "createCacheKey data options =
     (case stringifySorted data of
        Inl e \<Rightarrow> Inl e
      | Inr dataStr \<Rightarrow>
          (case (if truthy options then stringifySorted options else Inr []) of
             Inl e \<Rightarrow> Inl e
           | Inr optionsStr \<Rightarrow> Inr (hashString (dataStr @ optionsStr))))"

section \<open>The style compiler (\<^verbatim>\<open>src/lib/parser.ts\<close>)\<close>

abbreviation NL :: string where
  "NL \<equiv> [CHR 0x0A]"

text \<open>
  \<^verbatim>\<open>str.replace(ch, replacement)\<close> with a one-character string pattern: only the first
  occurrence is replaced, and in the replacement text \<^verbatim>\<open>$$\<close>, \<^verbatim>\<open>$&\<close>, \<^verbatim>\<open>$`\<close> and \<^verbatim>\<open>$'\<close> stand
  for a dollar sign, the match, the text before it and the text after it.
\<close>

fun getSubstitution :: "string \<Rightarrow> string \<Rightarrow> string \<Rightarrow> string \<Rightarrow> string" where
  "getSubstitution matched bef aft [] = []"
| "getSubstitution matched bef aft [c] = [c]"
| "getSubstitution matched bef aft (c # d # rest) =
     (if c = CHR ''$'' \<and> d = CHR ''$'' then CHR ''$'' # getSubstitution matched bef aft rest
      else if c = CHR ''$'' \<and> d = CHR ''&'' then matched @ getSubstitution matched bef aft rest
      else if c = CHR ''$'' \<and> d = CHR 0x60 then bef @ getSubstitution matched bef aft rest
      else if c = CHR ''$'' \<and> d = CHR 0x27 then aft @ getSubstitution matched bef aft rest
      else c # getSubstitution matched bef aft (d # rest))"

fun splitAtChar :: "char \<Rightarrow> string \<Rightarrow> (string \<times> string) option" where
  "splitAtChar ch [] = None"
| "splitAtChar ch (c # cs) =
     (if c = ch then Some ([], cs)
      else (case splitAtChar ch cs of
              None \<Rightarrow> None
            | Some (bef, aft) \<Rightarrow> Some (c # bef, aft)))"

definition replaceFirst :: "char \<Rightarrow> string \<Rightarrow> string \<Rightarrow> string" where
  "replaceFirst ch replacement str =
     (case splitAtChar ch str of
        None \<Rightarrow> str
      | Some (bef, aft) \<Rightarrow> bef @ getSubstitution [ch] bef aft replacement @ aft)"

text \<open>
  The local variables of \<^verbatim>\<open>parseStyleObject\<close> and its result. \<^verbatim>\<open>propertyCount\<close> and
  \<^verbatim>\<open>hasNestedRules\<close> are both a loop variable and a field of the result.
\<close>

record counters =
  propertyCount :: nat
  hasNestedRules :: bool

record loopVars = counters +
  declarations :: "string list"
  nestedRules :: "string list"

record styleText = counters +
  cssText :: string

definition initialVars :: loopVars where
  "initialVars = \<lparr>propertyCount = 0, hasNestedRules = False, declarations = [], nestedRules = []\<rparr>"

text \<open>What each of the three nesting branches does with a non-empty nested result.\<close>

definition pushNested :: "loopVars \<Rightarrow> string \<Rightarrow> styleText \<Rightarrow> loopVars" where
  "pushNested vars rule nestedResult =
     (if cssText nestedResult \<noteq> []
      then vars\<lparr>nestedRules := nestedRules vars @ [rule],
                hasNestedRules := True,
                propertyCount := propertyCount vars + propertyCount nestedResult\<rparr>
      else vars)"

text \<open>The text assembled after the loop: the own block, then the nested rules.\<close>

definition assemble :: "string \<Rightarrow> loopVars \<Rightarrow> styleText" where
  "assemble baseSelector vars =
     (let own = (if declarations vars \<noteq> []
                 then baseSelector @ '' {'' @ NL @ joinWith NL (declarations vars) @ NL @ ''}''
                 else []);
          css = (if nestedRules vars \<noteq> []
                 then (if own \<noteq> [] then own @ NL else own) @ joinWith NL (nestedRules vars)
                 else own)
      in \<lparr>propertyCount = propertyCount vars, hasNestedRules = hasNestedRules vars, cssText = css\<rparr>)"

text \<open>\<^verbatim>\<open>className ? `.${escapeSelector(className)}` : parentSelector\<close>; the empty string is falsy.\<close>

definition baseSelectorOf :: "string option \<Rightarrow> string \<Rightarrow> string" where
  "baseSelectorOf clsName parentSelector =
     (case clsName of
        Some c \<Rightarrow> if c \<noteq> [] then ''.'' @ escapeSelector c else parentSelector
      | None \<Rightarrow> parentSelector)"

text \<open>
  \<^verbatim>\<open>parseStyleObject\<close>; \<open>parseEntries\<close> is its \<^verbatim>\<open>for\<close> loop over \<^verbatim>\<open>Object.entries(styles)\<close>,
  one entry per step, in the four branches of the source.
\<close>

function parseStyleObject :: "jsvalue \<Rightarrow> string option \<Rightarrow> string \<Rightarrow> styleText"
  and parseEntries ::
    "(string \<times> jsvalue) list \<Rightarrow> string option \<Rightarrow> string \<Rightarrow> string \<Rightarrow> loopVars \<Rightarrow> loopVars"
where
  "parseStyleObject styles clsName parentSelector =
     assemble (baseSelectorOf clsName parentSelector)
       (parseEntries (objectEntries styles) clsName parentSelector
          (baseSelectorOf clsName parentSelector) initialVars)"
| "parseEntries [] clsName parentSelector baseSelector vars = vars"
| "parseEntries ((property, v) # rest) clsName parentSelector baseSelector vars =
     parseEntries rest clsName parentSelector baseSelector
       (if v = Undefined \<or> v = Null then vars
        else if startsWith property ''&'' then
          (let pseudoSelector = replaceFirst (CHR ''&'') baseSelector property;
               nestedResult = parseStyleObject v None pseudoSelector
           in pushNested vars (cssText nestedResult) nestedResult)
        else if startsWith property ''@'' then
          (let nestedResult = parseStyleObject v clsName parentSelector
           in pushNested vars (property @ '' {'' @ NL @ cssText nestedResult @ NL @ ''}'')
                nestedResult)
        else if typeOf v = ''object'' then
          (let nestedSelector = baseSelector @ '' '' @ property;
               nestedResult = parseStyleObject v None nestedSelector
           in pushNested vars (cssText nestedResult) nestedResult)
        else
          vars\<lparr>declarations := declarations vars
                    @ [''  '' @ kebabCase property @ '': '' @ normalizeValue (addUnit property v)
                       @ '';''],
                propertyCount := propertyCount vars + 1\<rparr>)"
  by pat_completeness auto

text \<open>
  Termination. A nested call is made only for an entry whose key starts with a marker or
  whose value is an object; the indexed characters of a string are neither, since their
  keys are decimal numerals.
\<close>

primrec weight :: "jsvalue \<Rightarrow> nat" where
  "weight Undefined = 1"
| "weight Null = 1"
| "weight (Bool b) = 1"
| "weight (Num n) = 1"
| "weight (Str s) = Suc (length s)"
| "weight (Obj ps) = Suc (sum_list (map (\<lambda>p. 2 + snd p) (map (map_prod id weight) ps)))"

definition recurses :: "string \<Rightarrow> jsvalue \<Rightarrow> bool" where
  "recurses property v \<longleftrightarrow>
     v \<noteq> Undefined \<and> v \<noteq> Null
     \<and> (startsWith property ''&'' \<or> startsWith property ''@'' \<or> typeOf v = ''object'')"

definition entriesWeight :: "(string \<times> jsvalue) list \<Rightarrow> nat" where
  "entriesWeight es =
     sum_list (map (\<lambda>(p, v). if recurses p v then 2 + weight v else 1) es)"

lemma digitChar_isDigit: "d < 10 \<Longrightarrow> isDigit (digitChar d)"
proof -
  assume "d < 10"
  then have "d \<in> {0, 1, 2, 3, 4, 5, 6, 7, 8, 9}" by auto
  then show ?thesis by (auto simp: digitChar_def isDigit_def)
qed

lemma toRadix_head: "toRadix 10 n \<noteq> [] \<and> isDigit (hd (toRadix 10 n))"
proof (induction "10::int" n rule: toRadix.induct)
  case (1 n)
  show ?case
  proof (cases "n < 10")
    case True
    then show ?thesis by (simp add: toRadix.simps [of 10 n] digitChar_isDigit)
  next
    case False
    with 1 show ?thesis by (simp add: toRadix.simps [of 10 n])
  qed
qed

lemma index_key_not_marker:
  "\<not> startsWith (toRadix 10 n) ''&'' \<and> \<not> startsWith (toRadix 10 n) ''@''"
proof -
  obtain c cs where "toRadix 10 n = c # cs" "isDigit c"
    using toRadix_head [of n] by (cases "toRadix 10 n") auto
  then show ?thesis by (auto simp: startsWith_def isDigit_def)
qed

lemma entriesWeight_stringEntries: "entriesWeight (stringEntries i s) = length s"
  by (induction s arbitrary: i) (auto simp: entriesWeight_def recurses_def index_key_not_marker)

lemma sum_list_insort_key:
  "sum_list (map f (insort_key k x xs)) = f x + sum_list (map f xs)" for f :: "'a \<Rightarrow> nat"
  by (induction xs) auto

lemma sum_list_sort_key:
  "sum_list (map f (sort_key k xs)) = sum_list (map f xs)" for f :: "'a \<Rightarrow> nat"
  by (induction xs) (auto simp: sum_list_insort_key)

lemma sum_list_partition:
  "sum_list (map f (filter P xs)) + sum_list (map f (filter (\<lambda>x. \<not> P x) xs))
     = sum_list (map f xs)"
  for f :: "'a \<Rightarrow> nat"
  by (induction xs) auto

lemma sum_list_ownEntries:
  "sum_list (map f (ownEntries ps)) = sum_list (map f ps)" for f :: "string \<times> jsvalue \<Rightarrow> nat"
  unfolding ownEntries_def
  using sum_list_partition [of f "\<lambda>(k, v). isArrayIndex k" ps]
  by (simp add: sum_list_sort_key case_prod_unfold)

lemma entriesWeight_le:
  "entriesWeight ps \<le> sum_list (map (\<lambda>p. 2 + snd p) (map (map_prod id weight) ps))"
  by (induction ps) (auto simp: entriesWeight_def)

lemma entriesWeight_objectEntries: "entriesWeight (objectEntries v) < weight v"
proof (cases v)
  case (Obj ps)
  have "entriesWeight (ownEntries ps) = entriesWeight ps"
    unfolding entriesWeight_def by (rule sum_list_ownEntries)
  with entriesWeight_le [of ps] show ?thesis using Obj by simp
next
  case (Str s)
  then show ?thesis by (simp add: entriesWeight_stringEntries)
qed (simp_all add: entriesWeight_def)

termination parseStyleObject
proof (relation "measure (\<lambda>x. case x of Inl (v, c, p) \<Rightarrow> weight v
                                      | Inr (es, c, p, b, vars) \<Rightarrow> entriesWeight es)",
       goal_cases)
  case 1
  show ?case by simp
next
  case (2 styles clsName parentSelector)
  show ?case by (simp add: entriesWeight_objectEntries)
qed (simp_all add: entriesWeight_def recurses_def)

text \<open>
  \<^verbatim>\<open>parseStyles\<close>. \<^verbatim>\<open>Object.entries\<close> throws a \<^verbatim>\<open>TypeError\<close> when \<open>styles\<close> is \<^verbatim>\<open>null\<close> or
  \<^verbatim>\<open>undefined\<close>. The \<^verbatim>\<open>className\<close> field of the result is \<open>resultClassName\<close>.
\<close>

record ParseResult = styleText +
  resultClassName :: string

definition parseStyles :: "jsvalue \<Rightarrow> string option \<Rightarrow> error + ParseResult" where
  "parseStyles styles clsName =
     (if styles = Undefined \<or> styles = Null then Inl TypeError
      else
        let mainRule = parseStyleObject styles clsName [];
            cssRules = (if cssText mainRule \<noteq> [] then [cssText mainRule] else [])
        in Inr \<lparr>propertyCount = (if cssText mainRule \<noteq> [] then propertyCount mainRule else 0),
                hasNestedRules = (cssText mainRule \<noteq> [] \<and> hasNestedRules mainRule),
                cssText = joinWith NL cssRules,
                resultClassName = (case clsName of Some c \<Rightarrow> c | None \<Rightarrow> [])\<rparr>)"

subsection \<open>Keyframes\<close>

text \<open>The inner loop of \<^verbatim>\<open>parseKeyframes\<close>: the declarations of one stop.\<close>

fun stopDeclarations :: "(string \<times> jsvalue) list \<Rightarrow> string list \<Rightarrow> string list" where
  "stopDeclarations [] decls = decls"
| "stopDeclarations ((property, v) # rest) decls =
     stopDeclarations rest
       (if v \<noteq> Undefined \<and> v \<noteq> Null \<and> typeOf v \<noteq> ''object''
        then decls @ [''    '' @ kebabCase property @ '': '' @ normalizeValue (addUnit property v)
                      @ '';'']
        else decls)"

text \<open>The outer loop, over the stops; a stop that is \<^verbatim>\<open>null\<close> or \<^verbatim>\<open>undefined\<close> makes it throw.\<close>

fun keyframeLoop :: "(string \<times> jsvalue) list \<Rightarrow> string list \<Rightarrow> error + string list" where
  "keyframeLoop [] keyframeRules = Inr keyframeRules"
| "keyframeLoop ((keyframe, styles) # rest) keyframeRules =
     (if styles = Undefined \<or> styles = Null then Inl TypeError
      else
        let decls = stopDeclarations (objectEntries styles) []
        in keyframeLoop rest
             (if decls \<noteq> []
              then keyframeRules
                   @ [''  '' @ keyframe @ '' {'' @ NL @ joinWith NL decls @ NL @ ''  }'']
              else keyframeRules))"

definition parseKeyframes :: "jsvalue \<Rightarrow> error + string" where
  "parseKeyframes keyframes =
     (if keyframes = Undefined \<or> keyframes = Null then Inl TypeError
      else (case keyframeLoop (objectEntries keyframes) [] of
              Inl e \<Rightarrow> Inl e
            | Inr keyframeRules \<Rightarrow> Inr (joinWith NL keyframeRules)))"

definition generateKeyframesRule :: "string \<Rightarrow> jsvalue \<Rightarrow> error + string" where
  "generateKeyframesRule animationName keyframes =
     (case parseKeyframes keyframes of
        Inl e \<Rightarrow> Inl e
      | Inr keyframesCSS \<Rightarrow>
          Inr (''@keyframes '' @ animationName @ '' {'' @ NL @ keyframesCSS @ NL @ ''}''))"

subsection \<open>Splitting rule text into top-level rules\<close>

text \<open>
  \<^verbatim>\<open>splitCSSRules\<close>, which the injection uses to hand the text to the style sheet rule by
  rule: a rule ends where the brace count returns to zero outside a quoted string.
\<close>

record splitVars =
  rules :: "string list"
  currentRule :: string
  braceCount :: int
  inString :: bool
  stringChar :: "char option"

fun splitLoop :: "char option \<Rightarrow> string \<Rightarrow> splitVars \<Rightarrow> splitVars" where
  "splitLoop prevChar [] sv = sv"
| "splitLoop prevChar (c # cs) sv =
     (let sv1 = (if (c = CHR 0x22 \<or> c = CHR 0x27) \<and> prevChar \<noteq> Some (CHR 0x5C)
                 then (if \<not> inString sv then sv\<lparr>inString := True, stringChar := Some c\<rparr>
                       else if Some c = stringChar sv
                       then sv\<lparr>inString := False, stringChar := None\<rparr>
                       else sv)
                 else sv);
          sv2 = sv1\<lparr>currentRule := currentRule sv1 @ [c]\<rparr>;
          sv3 = (if \<not> inString sv2
                 then (if c = CHR ''{'' then sv2\<lparr>braceCount := braceCount sv2 + 1\<rparr>
                       else if c = CHR ''}''
                       then (let sv' = sv2\<lparr>braceCount := braceCount sv2 - 1\<rparr>
                             in if braceCount sv' = 0
                                then sv'\<lparr>rules := rules sv' @ [trim (currentRule sv')],
                                         currentRule := []\<rparr>
                                else sv')
                       else sv2)
                 else sv2)
      in splitLoop (Some c) cs sv3)"

definition splitCSSRules :: "string \<Rightarrow> string list" where
  "splitCSSRules css =
     (let sv = splitLoop None css
                 \<lparr>rules = [], currentRule = [], braceCount = 0, inString = False,
                  stringChar = None\<rparr>
      in if trim (currentRule sv) \<noteq> [] then rules sv @ [trim (currentRule sv)] else rules sv)"

section \<open>The style manager (\<^verbatim>\<open>src/lib/manager.ts\<close>)\<close>

subsection \<open>Configuration, options, cache items\<close>

datatype StyleInsertionMode = SYNC | ASYNC | LAZY

text \<open>
  \<^verbatim>\<open>CSSInJSConfig\<close>: every field is optional, \<open>None\<close> being \<^verbatim>\<open>undefined\<close>. An element is a
  handle; \<^verbatim>\<open>maxCacheSize\<close> is an integer.
\<close>

record CSSInJSConfig =
  classNamePrefix :: "string option"
  insertionMode :: "StyleInsertionMode option"
  enableCache :: "bool option"
  developmentMode :: "bool option"
  styleTagId :: "string option"
  insertionPoint :: "nat option"
  minifyCSS :: "bool option"
  maxCacheSize :: "int option"

text \<open>
  The argument of \<^verbatim>\<open>configure\<close> is a partial configuration: the list of the properties it
  has, each with its value (which may be \<^verbatim>\<open>undefined\<close>).
\<close>

datatype setting =
    SetClassNamePrefix "string option"
  | SetInsertionMode "StyleInsertionMode option"
  | SetEnableCache "bool option"
  | SetDevelopmentMode "bool option"
  | SetStyleTagId "string option"
  | SetInsertionPoint "nat option"
  | SetMinifyCSS "bool option"
  | SetMaxCacheSize "int option"

fun applySetting :: "setting \<Rightarrow> CSSInJSConfig \<Rightarrow> CSSInJSConfig" where
  "applySetting (SetClassNamePrefix x) c = c\<lparr>classNamePrefix := x\<rparr>"
| "applySetting (SetInsertionMode x) c = c\<lparr>insertionMode := x\<rparr>"
| "applySetting (SetEnableCache x) c = c\<lparr>enableCache := x\<rparr>"
| "applySetting (SetDevelopmentMode x) c = c\<lparr>developmentMode := x\<rparr>"
| "applySetting (SetStyleTagId x) c = c\<lparr>styleTagId := x\<rparr>"
| "applySetting (SetInsertionPoint x) c = c\<lparr>insertionPoint := x\<rparr>"
| "applySetting (SetMinifyCSS x) c = c\<lparr>minifyCSS := x\<rparr>"
| "applySetting (SetMaxCacheSize x) c = c\<lparr>maxCacheSize := x\<rparr>"

text \<open>The object spread \<^verbatim>\<open>{ ...this.config, ...newConfig }\<close>.\<close>

definition spreadConfig :: "CSSInJSConfig \<Rightarrow> setting list \<Rightarrow> CSSInJSConfig" where
  "spreadConfig c newConfig = fold applySetting newConfig c"

definition defaultConfig :: CSSInJSConfig where
  "defaultConfig =
     \<lparr>classNamePrefix = Some ''css'', insertionMode = Some SYNC, enableCache = Some True,
      developmentMode = Some False, styleTagId = None, insertionPoint = None,
      minifyCSS = Some False, maxCacheSize = Some 10000\<rparr>"

text \<open>\<^verbatim>\<open>CSSOptions\<close>, and the \<^verbatim>\<open>finalOptions\<close> that \<^verbatim>\<open>createStyle\<close> builds from them.\<close>

record CSSOptions =
  optClassNamePrefix :: "string option"
  optClassName :: "string option"
  optEnableCSSVariables :: "bool option"

record finalOptions =
  finalClassNamePrefix :: string
  finalClassName :: "string option"
  finalEnableCSSVariables :: bool

definition finalOptionsValue :: "finalOptions \<Rightarrow> jsvalue" where
  "finalOptionsValue fo =
     Obj [(''classNamePrefix'', Str (finalClassNamePrefix fo)),
          (''className'', (case finalClassName fo of None \<Rightarrow> Undefined | Some c \<Rightarrow> Str c)),
          (''enableCSSVariables'', Bool (finalEnableCSSVariables fo))]"

record StyleMetadata =
  timestamp :: int
  source :: "string option"
  isDynamic :: bool
  cssSize :: nat

text \<open>
  \<^verbatim>\<open>StyleCacheItem\<close> and \<^verbatim>\<open>AnimationCacheItem\<close> differ only in the name of their first field
  (\<^verbatim>\<open>className\<close>, \<^verbatim>\<open>animationName\<close>), here \<open>itemName\<close>; \<open>itemCssText\<close> is \<^verbatim>\<open>cssText\<close>.
\<close>

record cacheItem =
  itemName :: string
  itemCssText :: string
  metadata :: StyleMetadata
  lastUsed :: int
  useCount :: nat

record statistics =
  totalStyles :: nat
  cacheHits :: nat
  cacheMisses :: nat
  injectionTime :: nat
  lastCleanup :: int

subsection \<open>The manager and its environment\<close>

text \<open>
  A \<^verbatim>\<open>Map\<close> is the list of its entries in insertion order. \<open>sinkCalls\<close> records, in order,
  the texts handed synchronously to the parser's \<^verbatim>\<open>injectCSS\<close> (the Sink); \<open>deferred\<close>
  records the texts whose injection was scheduled with \<^verbatim>\<open>setTimeout\<close> or
  \<^verbatim>\<open>requestAnimationFrame\<close>; \<open>cleanupPending\<close> says that the debounced clean-up timer is set.
\<close>

record manager =
  styleCache :: "(string \<times> cacheItem) list"
  animationCache :: "(string \<times> cacheItem) list"
  injectedRules :: "string set"
  config :: CSSInJSConfig
  stats :: statistics
  sinkCalls :: "string list"
  deferred :: "string list"
  cleanupPending :: bool

text \<open>What the Sink does with one text: it returns \<^verbatim>\<open>true\<close>, returns \<^verbatim>\<open>false\<close>, or throws.\<close>

datatype sinkResult = Injected | Rejected | Threw

text \<open>
  What one call reads from outside the manager: the clock (\<^verbatim>\<open>Date.now()\<close>), the random
  suffix, the time \<^verbatim>\<open>performance.now()\<close> measures for the call, the Sink, and whether
  \<^verbatim>\<open>requestAnimationFrame\<close> exists. One reading of the clock and one random suffix serve the
  whole call.
\<close>

record env =
  clock :: int
  randomSuffix :: string
  elapsed :: nat
  sink :: "string \<Rightarrow> sinkResult"
  hasRequestAnimationFrame :: bool

definition mapHas :: "'k \<Rightarrow> ('k \<times> 'v) list \<Rightarrow> bool" where
  "mapHas k m \<longleftrightarrow> k \<in> fst ` set m"

fun mapSet :: "'k \<Rightarrow> 'v \<Rightarrow> ('k \<times> 'v) list \<Rightarrow> ('k \<times> 'v) list" where
  "mapSet k v [] = [(k, v)]"
| "mapSet k v ((k', v') # m) = (if k' = k then (k, v) # m else (k', v') # mapSet k v m)"

definition truthyStr :: "string option \<Rightarrow> bool" where
  "truthyStr x \<longleftrightarrow> (case x of None \<Rightarrow> False | Some t \<Rightarrow> t \<noteq> [])"

definition cacheEnabled :: "manager \<Rightarrow> bool" where
  "cacheEnabled m \<longleftrightarrow> enableCache (config m) = Some True"

definition newManager :: "env \<Rightarrow> manager" where
  "newManager e =
     \<lparr>styleCache = [], animationCache = [], injectedRules = {}, config = defaultConfig,
      stats = \<lparr>totalStyles = 0, cacheHits = 0, cacheMisses = 0, injectionTime = 0,
               lastCleanup = clock e\<rparr>,
      sinkCalls = [], deferred = [], cleanupPending = False\<rparr>"

subsection \<open>Operations\<close>

definition clearCache :: "manager \<Rightarrow> manager" where
  "clearCache m =
     m\<lparr>styleCache := [], animationCache := [], injectedRules := {},
       stats := (stats m)\<lparr>cacheHits := 0, cacheMisses := 0\<rparr>\<rparr>"

definition configure :: "setting list \<Rightarrow> manager \<Rightarrow> manager" where
  "configure newConfig m =
     (let m' = m\<lparr>config := spreadConfig (config m) newConfig\<rparr>
      in if \<not> cacheEnabled m' then clearCache m' else m')"

text \<open>The private \<^verbatim>\<open>generateClassName(options)\<close> of the manager.\<close>

definition managerClassName :: "env \<Rightarrow> finalOptions \<Rightarrow> string" where
  "managerClassName e fo =
     (if truthyStr (finalClassName fo)
      then (if finalClassNamePrefix fo \<noteq> []
            then finalClassNamePrefix fo @ ''-'' @ the (finalClassName fo)
            else the (finalClassName fo))
      else generateClassName (randomSuffix e) (clock e) (finalClassNamePrefix fo))"

text \<open>One synchronous call of the Sink, inside the \<^verbatim>\<open>try\<close> of \<^verbatim>\<open>injectCSS\<close>.\<close>

definition callSink :: "env \<Rightarrow> string \<Rightarrow> manager \<Rightarrow> sinkResult \<times> manager" where
  "callSink e css m = (sink e css, m\<lparr>sinkCalls := sinkCalls m @ [css]\<rparr>)"

definition schedule :: "string \<Rightarrow> manager \<Rightarrow> manager" where
  "schedule css m = m\<lparr>deferred := deferred m @ [css]\<rparr>"

text \<open>
  The private \<^verbatim>\<open>injectCSS\<close>. In each mode \<open>attempt\<close> is the value of \<^verbatim>\<open>success\<close> after the
  \<^verbatim>\<open>switch\<close>, or \<open>None\<close> when the Sink threw and the \<^verbatim>\<open>catch\<close> returned \<^verbatim>\<open>false\<close>.
\<close>

definition syncAttempt :: "env \<Rightarrow> string \<Rightarrow> manager \<Rightarrow> bool option \<times> manager" where
  "syncAttempt e css m =
     (case callSink e css m of
        (Injected, m') \<Rightarrow> (Some True, m')
      | (Rejected, m') \<Rightarrow> (Some False, m')
      | (Threw, m') \<Rightarrow> (None, m'))"

definition injectCSS :: "env \<Rightarrow> string \<Rightarrow> manager \<Rightarrow> bool \<times> manager" where
  "injectCSS e css m =
     (if trim css = [] then (False, m)
      else if css \<in> injectedRules m then (True, m)
      else
        let (attempt, m') =
              (case insertionMode (config m) of
                 Some SYNC \<Rightarrow> syncAttempt e css m
               | Some ASYNC \<Rightarrow> (Some True, schedule css m)
               | Some LAZY \<Rightarrow>
                   (if hasRequestAnimationFrame e then (Some True, schedule css m)
                    else (case syncAttempt e css m of
                            (None, m1) \<Rightarrow> (None, m1)
                          | (Some r, m1) \<Rightarrow> (Some True, m1)))
               | None \<Rightarrow> syncAttempt e css m)
        in (case attempt of
              None \<Rightarrow> (False, m')
            | Some success \<Rightarrow>
                (success,
                 if success then m'\<lparr>injectedRules := insert css (injectedRules m')\<rparr> else m')))"

text \<open>The \<^verbatim>\<open>catch\<close> of \<^verbatim>\<open>createStyle\<close>: a generated name, from the state reached so far.\<close>

definition createStyleFallback :: "env \<Rightarrow> manager \<Rightarrow> string \<times> manager" where
  "createStyleFallback e m =
     (generateClassName (randomSuffix e) (clock e)
        (if truthyStr (classNamePrefix (config m)) then the (classNamePrefix (config m))
         else ''css-error''),
      m)"

definition mkFinalOptions :: "CSSOptions option \<Rightarrow> manager \<Rightarrow> finalOptions" where
  "mkFinalOptions options m =
     \<lparr>finalClassNamePrefix =
        (case (case options of None \<Rightarrow> None | Some opts \<Rightarrow> optClassNamePrefix opts) of
           Some p \<Rightarrow> p
         | None \<Rightarrow> (if truthyStr (classNamePrefix (config m)) then the (classNamePrefix (config m))
                    else ''css'')),
      finalClassName = (case options of None \<Rightarrow> None | Some opts \<Rightarrow> optClassName opts),
      finalEnableCSSVariables =
        (case (case options of None \<Rightarrow> None | Some opts \<Rightarrow> optEnableCSSVariables opts) of
           Some b \<Rightarrow> b
         | None \<Rightarrow> True)\<rparr>"

definition newCacheItem :: "env \<Rightarrow> string \<Rightarrow> string \<Rightarrow> cacheItem" where
  "newCacheItem e clsName css =
     \<lparr>itemName = clsName, itemCssText = css,
      metadata = \<lparr>timestamp = clock e, source = Some ''createStyle'', isDynamic = False,
                  cssSize = length css\<rparr>,
      lastUsed = clock e, useCount = 1\<rparr>"

text \<open>The cache hit of \<^verbatim>\<open>createStyle\<close>: the usage fields of the item are updated in place.\<close>

definition touch :: "env \<Rightarrow> cacheItem \<Rightarrow> cacheItem" where
  "touch e item = item\<lparr>lastUsed := clock e, useCount := useCount item + 1\<rparr>"

definition createStyle ::
  "env \<Rightarrow> jsvalue \<Rightarrow> CSSOptions option \<Rightarrow> manager \<Rightarrow> string \<times> manager" where
  "createStyle e styles options m =
     (let fo = mkFinalOptions options m
      in case (if cacheEnabled m then createCacheKey styles (finalOptionsValue fo) else Inr [])
         of
           Inl err \<Rightarrow> createStyleFallback e m
         | Inr cacheKey \<Rightarrow>
             (case (if cacheEnabled m then map_of (styleCache m) cacheKey else None) of
                Some cachedItem \<Rightarrow>
                  (itemName cachedItem,
                   m\<lparr>styleCache := mapSet cacheKey (touch e cachedItem) (styleCache m),
                     stats := (stats m)\<lparr>cacheHits := cacheHits (stats m) + 1\<rparr>\<rparr>)
              | None \<Rightarrow>
                  let m1 = m\<lparr>stats := (stats m)\<lparr>cacheMisses := cacheMisses (stats m) + 1\<rparr>\<rparr>;
                      clsName = managerClassName e fo
                  in (case parseStyles styles (Some clsName) of
                        Inl err \<Rightarrow> createStyleFallback e m1
                      | Inr parseResult \<Rightarrow>
                          if cssText parseResult = [] then (clsName, m1)
                          else
                            let (injected, m2) = injectCSS e (cssText parseResult) m1;
                                m3 = (if injected \<and> cacheEnabled m2
                                      then m2\<lparr>styleCache :=
                                                mapSet cacheKey
                                                  (newCacheItem e clsName (cssText parseResult))
                                                  (styleCache m2),
                                              cleanupPending := True\<rparr>
                                      else m2)
                            in (clsName,
                                m3\<lparr>stats := (stats m3)
                                     \<lparr>totalStyles := totalStyles (stats m3) + 1,
                                      injectionTime := injectionTime (stats m3) + elapsed e\<rparr>\<rparr>))))"

text \<open>
  \<^verbatim>\<open>cleanupCache\<close>. Each loop walks the entries in insertion order and deletes the entry
  it is at when that entry is older than \<open>maxAge\<close> or the map is, at that moment, larger
  than \<open>maxSize\<close>; \<open>kept\<close> are the entries already passed and not deleted.
\<close>

fun sweep ::
  "int \<Rightarrow> int \<Rightarrow> int \<Rightarrow> (string \<times> cacheItem) list \<Rightarrow> (string \<times> cacheItem) list
     \<Rightarrow> (string \<times> cacheItem) list" where
  "sweep t maxAge maxSize kept [] = kept"
| "sweep t maxAge maxSize kept ((key, item) # rest) =
     (if t - lastUsed item > maxAge
         \<or> int (length kept + Suc (length rest)) > maxSize
      then sweep t maxAge maxSize kept rest
      else sweep t maxAge maxSize (kept @ [(key, item)]) rest)"

definition effectiveMaxSize :: "manager \<Rightarrow> int" where
  "effectiveMaxSize m =
     (case maxCacheSize (config m) of
        None \<Rightarrow> 10000
      | Some n \<Rightarrow> if n = 0 then 10000 else n)"

definition cleanupCache :: "env \<Rightarrow> manager \<Rightarrow> manager" where
  "cleanupCache e m =
     (if \<not> cacheEnabled m then m
      else
        let maxAge = 30 * 60 * 1000;
            maxSize = effectiveMaxSize m
        in m\<lparr>styleCache := sweep (clock e) maxAge maxSize [] (styleCache m),
             animationCache := sweep (clock e) maxAge maxSize [] (animationCache m),
             stats := (stats m)\<lparr>lastCleanup := clock e\<rparr>\<rparr>)"

text \<open>The debounced clean-up that \<^verbatim>\<open>createStyle\<close> arms, when its timer fires.\<close>

definition debouncedCleanupFires :: "env \<Rightarrow> manager \<Rightarrow> manager" where
  "debouncedCleanupFires e m =
     (if cleanupPending m then cleanupCache e (m\<lparr>cleanupPending := False\<rparr>) else m)"

text \<open>\<^verbatim>\<open>hasStyle\<close> of the manager: the key is made from the styles alone.\<close>

definition hasStyle :: "jsvalue \<Rightarrow> manager \<Rightarrow> error + bool" where
  "hasStyle styles m =
     (if \<not> cacheEnabled m then Inr False
      else (case createCacheKey styles Undefined of
              Inl err \<Rightarrow> Inl err
            | Inr cacheKey \<Rightarrow> Inr (mapHas cacheKey (styleCache m))))"

section \<open>The public functions (\<^verbatim>\<open>src/lib/css.ts\<close>)\<close>

text \<open>
  The process holds at most one manager, \<^verbatim>\<open>StyleManager.instance\<close>; \<open>None\<close> is the state
  before the first use. The functions of \<^verbatim>\<open>css.ts\<close> that share a name with a method of the
  manager carry the prefix \<open>api\<close> here.
\<close>

definition getInstance :: "env \<Rightarrow> manager option \<Rightarrow> manager" where
  "getInstance e g = (case g of None \<Rightarrow> newManager e | Some m \<Rightarrow> m)"

text \<open>A style definition is a style object or a function from parameters to one.\<close>

datatype 'p styleDefinition = StaticStyle jsvalue | StyleFunction "'p \<Rightarrow> error + jsvalue"

text \<open>
  \<^verbatim>\<open>css(styleDefinition, options)(params)\<close>: the returned closure applied to \<open>params\<close>, where
  \<open>None\<close> is a call without argument.
\<close>

definition css ::
  "'p styleDefinition \<Rightarrow> CSSOptions option \<Rightarrow> 'p option \<Rightarrow> env \<Rightarrow> manager option
     \<Rightarrow> string \<times> manager option" where
  "css styleDefinition options params e g =
     (let styleManager = getInstance e g;
          styles = (case styleDefinition of
                      StyleFunction f \<Rightarrow>
                        (case params of None \<Rightarrow> Inl ParamsRequired | Some p \<Rightarrow> f p)
                    | StaticStyle st \<Rightarrow> Inr st)
      in case styles of
           Inl err \<Rightarrow> (''css-error'', Some styleManager)
         | Inr st \<Rightarrow>
             if \<not> truthy st \<or> typeOf st \<noteq> ''object'' then (''css-error'', Some styleManager)
             else (case createStyle e st options styleManager of
                     (cls, m) \<Rightarrow> (cls, Some m)))"

definition apiConfigure :: "setting list \<Rightarrow> env \<Rightarrow> manager option \<Rightarrow> manager option" where
  "apiConfigure newConfig e g = Some (configure newConfig (getInstance e g))"

definition apiClearCache :: "env \<Rightarrow> manager option \<Rightarrow> manager option" where
  "apiClearCache e g = Some (clearCache (getInstance e g))"

definition apiHasStyle :: "jsvalue \<Rightarrow> env \<Rightarrow> manager option \<Rightarrow> bool \<times> manager option" where
  "apiHasStyle styles e g =
     ((case hasStyle styles (getInstance e g) of Inl err \<Rightarrow> False | Inr b \<Rightarrow> b),
      Some (getInstance e g))"

section \<open>Concrete inputs\<close>

text \<open>
  A Sink that answers every text alike; two environments with an accepting Sink that
  differ in the random suffix and the clock, as two calls of one process do; and two
  environments whose Sink never succeeds, one rejecting and one throwing.
\<close>

definition constantSink :: "sinkResult \<Rightarrow> string \<Rightarrow> sinkResult" where
  "constantSink r ruleText = r"

definition envA :: env where
  "envA = \<lparr>clock = 1000000, randomSuffix = ''k3j9x2ab'', elapsed = 1,
           sink = constantSink Injected, hasRequestAnimationFrame = True\<rparr>"

definition envB :: env where
  "envB = \<lparr>clock = 1000007, randomSuffix = ''q8w1z5cd'', elapsed = 1,
           sink = constantSink Injected, hasRequestAnimationFrame = True\<rparr>"

definition envRejecting :: env where
  "envRejecting = \<lparr>clock = 1000000, randomSuffix = ''k3j9x2ab'', elapsed = 1,
                   sink = constantSink Rejected, hasRequestAnimationFrame = True\<rparr>"

definition envThrowing :: env where
  "envThrowing = \<lparr>clock = 1000007, randomSuffix = ''q8w1z5cd'', elapsed = 1,
                  sink = constantSink Threw, hasRequestAnimationFrame = True\<rparr>"

section \<open>Facts about the manager\<close>

lemma trim_Nil: "trim [] = []"
  by (simp add: trim_def)

lemma generateClassName_nonempty: "generateClassName r t p \<noteq> []"
  by (simp add: generateClassName_def Let_def)

lemma managerClassName_nonempty: "managerClassName e fo \<noteq> []"
  by (auto simp: managerClassName_def truthyStr_def generateClassName_nonempty
           split: option.splits)

lemma config_clearCache: "config (clearCache m) = config m"
  by (simp add: clearCache_def)

lemma config_configure: "config (configure p m) = fold applySetting p (config m)"
  by (simp add: configure_def Let_def config_clearCache spreadConfig_def)

lemma config_injectCSS: "config (snd (injectCSS e t m)) = config m"
  by (simp add: injectCSS_def syncAttempt_def callSink_def schedule_def Let_def
           split: option.splits StyleInsertionMode.splits sinkResult.splits prod.splits)

lemma config_createStyle: "config (snd (createStyle e styles options m)) = config m"
proof -
  have inj: "\<And>t m0 b m1. injectCSS e t m0 = (b, m1) \<Longrightarrow> config m1 = config m0"
    using config_injectCSS by (metis snd_conv)
  show ?thesis
    by (auto simp: createStyle_def createStyleFallback_def Let_def cacheEnabled_def
             split: sum.splits option.splits prod.splits dest: inj)
qed

lemma mkFinalOptions_config:
  assumes same: "config m1 = config m"
  shows "mkFinalOptions options m1 = mkFinalOptions options m"
  unfolding mkFinalOptions_def same by (rule refl)

lemma map_of_mapSet: "map_of (mapSet k v m) k = Some v"
  by (induction m) auto

subsection \<open>Runs of \<^verbatim>\<open>createStyle\<close>\<close>

text \<open>
  A run is a sequence of calls, each with the environment it reads; it yields the
  identifiers returned, in order, and the manager after the last call.
\<close>

fun runCreateStyle ::
  "(env \<times> jsvalue \<times> CSSOptions option) list \<Rightarrow> manager \<Rightarrow> string list \<times> manager" where
  "runCreateStyle [] m = ([], m)"
| "runCreateStyle ((e, styles, options) # calls) m =
     (let (cls, m1) = createStyle e styles options m;
          (names, m2) = runCreateStyle calls m1
      in (cls # names, m2))"

lemma config_runCreateStyle: "config (snd (runCreateStyle calls m)) = config m"
proof (induction calls arbitrary: m)
  case Nil
  show ?case by simp
next
  case (Cons call calls)
  obtain e styles options where c: "call = (e, styles, options)" by (cases call)
  show ?case
    using Cons.IH [of "snd (createStyle e styles options m)"] c
    by (simp add: case_prod_unfold Let_def config_createStyle)
qed

subsection \<open>The rule text of a call\<close>

text \<open>
  The rule text \<^verbatim>\<open>createStyle\<close> compiles for a call that misses the cache; it is empty when
  the compiler throws.
\<close>

definition ruleTextOf :: "env \<Rightarrow> jsvalue \<Rightarrow> CSSOptions option \<Rightarrow> manager \<Rightarrow> string" where
  "ruleTextOf e styles options m =
     (case parseStyles styles (Some (managerClassName e (mkFinalOptions options m))) of
        Inl err \<Rightarrow> []
      | Inr r \<Rightarrow> cssText r)"

lemma ruleTextOf_config:
  assumes same: "config m1 = config m"
  shows "ruleTextOf e styles options m1 = ruleTextOf e styles options m"
  unfolding ruleTextOf_def mkFinalOptions_def same by (rule refl)

section \<open>Two calls with equal input\<close>

lemma injectCSS_succeeding:
  assumes "trim t \<noteq> []"
    and "t \<notin> injectedRules m"
    and "sink e t = Injected"
  shows "fst (injectCSS e t m) = True
         \<and> config (snd (injectCSS e t m)) = config m
         \<and> styleCache (snd (injectCSS e t m)) = styleCache m
         \<and> ((sinkCalls (snd (injectCSS e t m)) = sinkCalls m @ [t]
              \<and> deferred (snd (injectCSS e t m)) = deferred m)
             \<or> (sinkCalls (snd (injectCSS e t m)) = sinkCalls m
                 \<and> deferred (snd (injectCSS e t m)) = deferred m @ [t]))"
  using assms
  by (auto simp: injectCSS_def syncAttempt_def callSink_def schedule_def Let_def
           split: option.splits StyleInsertionMode.splits)

lemma createStyle_miss:
  assumes en: "cacheEnabled m"
    and key: "createCacheKey styles (finalOptionsValue (mkFinalOptions options m)) = Inr k"
    and miss: "map_of (styleCache m) k = None"
    and nonblank: "trim (ruleTextOf e styles options m) \<noteq> []"
    and fresh: "ruleTextOf e styles options m \<notin> injectedRules m"
    and ok: "sink e (ruleTextOf e styles options m) = Injected"
  shows "fst (createStyle e styles options m) = managerClassName e (mkFinalOptions options m)
         \<and> config (snd (createStyle e styles options m)) = config m
         \<and> (\<exists>item. map_of (styleCache (snd (createStyle e styles options m))) k = Some item
                \<and> itemName item = managerClassName e (mkFinalOptions options m))
         \<and> ((sinkCalls (snd (createStyle e styles options m))
                = sinkCalls m @ [ruleTextOf e styles options m]
              \<and> deferred (snd (createStyle e styles options m)) = deferred m)
             \<or> (sinkCalls (snd (createStyle e styles options m)) = sinkCalls m
                 \<and> deferred (snd (createStyle e styles options m))
                     = deferred m @ [ruleTextOf e styles options m]))"
proof -
  let ?fo = "mkFinalOptions options m"
  let ?cls = "managerClassName e ?fo"
  let ?t = "ruleTextOf e styles options m"
  let ?m1 = "m\<lparr>stats := (stats m)\<lparr>cacheMisses := cacheMisses (stats m) + 1\<rparr>\<rparr>"
  from nonblank obtain r where parsed: "parseStyles styles (Some ?cls) = Inr r" and rt: "cssText r = ?t"
    by (cases "parseStyles styles (Some ?cls)") (auto simp: ruleTextOf_def trim_Nil)
  from nonblank have nonempty: "?t \<noteq> []" by (auto simp: trim_Nil)
  obtain b m2 where inj: "injectCSS e ?t ?m1 = (b, m2)" by (cases "injectCSS e ?t ?m1")
  from fresh have fresh1: "?t \<notin> injectedRules ?m1" by simp
  from injectCSS_succeeding [OF nonblank fresh1 ok] inj
  have b: "b = True" and c2: "config m2 = config m" and s2: "styleCache m2 = styleCache m"
    and log: "(sinkCalls m2 = sinkCalls m @ [?t] \<and> deferred m2 = deferred m)
              \<or> (sinkCalls m2 = sinkCalls m \<and> deferred m2 = deferred m @ [?t])"
    by simp_all
  from en c2 have en2: "cacheEnabled m2" by (simp add: cacheEnabled_def)
  have "createStyle e styles options m
          = (?cls, (m2\<lparr>styleCache := mapSet k (newCacheItem e ?cls ?t) (styleCache m2),
                       cleanupPending := True\<rparr>)
                   \<lparr>stats := (stats (m2\<lparr>styleCache := mapSet k (newCacheItem e ?cls ?t) (styleCache m2),
                       cleanupPending := True\<rparr>))
                      \<lparr>totalStyles := totalStyles (stats m2) + 1,
                       injectionTime := injectionTime (stats m2) + elapsed e\<rparr>\<rparr>)"
    using en key miss parsed rt nonempty inj b en2
    by (simp add: createStyle_def Let_def)
  with c2 log show ?thesis
    by (auto simp: map_of_mapSet newCacheItem_def)
qed

lemma createStyle_hit:
  assumes en: "cacheEnabled m"
    and key: "createCacheKey styles (finalOptionsValue (mkFinalOptions options m)) = Inr k"
    and hit: "map_of (styleCache m) k = Some item"
  shows "fst (createStyle e styles options m) = itemName item
         \<and> sinkCalls (snd (createStyle e styles options m)) = sinkCalls m
         \<and> deferred (snd (createStyle e styles options m)) = deferred m"
  using assms by (simp add: createStyle_def Let_def)

text \<open>
  C1, as stated, for every description. It fails for the empty description: its rule text
  is empty, \<^verbatim>\<open>createStyle\<close> returns the freshly generated name before any injection or
  caching, and the second call generates another name. With caching enabled and a Sink
  that accepts every text, the two identifiers differ and the Sink is never called.
\<close>

theorem empty_description_counterexample:
  "cacheEnabled (newManager envA)
   \<and> sink envA = constantSink Injected \<and> sink envB = constantSink Injected
   \<and> fst (createStyle envA (Obj []) None (newManager envA)) = ''css-k3j9x2ablfls''
   \<and> fst (createStyle envB (Obj []) None (snd (createStyle envA (Obj []) None (newManager envA))))
       = ''css-q8w1z5cdlflz''
   \<and> sinkCalls (snd (createStyle envB (Obj []) None
         (snd (createStyle envA (Obj []) None (newManager envA))))) = []
   \<and> deferred (snd (createStyle envB (Obj []) None
         (snd (createStyle envA (Obj []) None (newManager envA))))) = []"
proof -
  have s: "sink envA = constantSink Injected \<and> sink envB = constantSink Injected"
    by (simp add: envA_def envB_def)
  have r: "cacheEnabled (newManager envA)
   \<and> fst (createStyle envA (Obj []) None (newManager envA)) = ''css-k3j9x2ablfls''
   \<and> fst (createStyle envB (Obj []) None (snd (createStyle envA (Obj []) None (newManager envA))))
       = ''css-q8w1z5cdlflz''
   \<and> sinkCalls (snd (createStyle envB (Obj []) None
         (snd (createStyle envA (Obj []) None (newManager envA))))) = []
   \<and> deferred (snd (createStyle envB (Obj []) None
         (snd (createStyle envA (Obj []) None (newManager envA))))) = []"
    by code_simp
  from s r show ?thesis by simp
qed

text \<open>
  C1, amended: with caching enabled, for a description (and options) whose fingerprint is
  not yet cached and whose compiled rule text is not blank and not yet injected, and with
  the Sink accepting that text: two successive \<^verbatim>\<open>createStyle\<close> calls with this input return
  the same identifier, whatever the clock and the random suffix of the second call, and
  over both calls the rule text is handed to the Sink (or, in a deferred mode, scheduled
  for it) exactly once.
\<close>

theorem createStyle_twice_same_identifier:
  assumes en: "cacheEnabled m"
    and key: "createCacheKey styles (finalOptionsValue (mkFinalOptions options m)) = Inr k"
    and miss: "map_of (styleCache m) k = None"
    and nonblank: "trim (ruleTextOf e1 styles options m) \<noteq> []"
    and fresh: "ruleTextOf e1 styles options m \<notin> injectedRules m"
    and ok: "sink e1 (ruleTextOf e1 styles options m) = Injected"
  shows "fst (createStyle e2 styles options (snd (createStyle e1 styles options m)))
           = fst (createStyle e1 styles options m)
         \<and> ((sinkCalls (snd (createStyle e2 styles options (snd (createStyle e1 styles options m))))
                = sinkCalls m @ [ruleTextOf e1 styles options m]
              \<and> deferred (snd (createStyle e2 styles options (snd (createStyle e1 styles options m))))
                  = deferred m)
             \<or> (sinkCalls (snd (createStyle e2 styles options (snd (createStyle e1 styles options m))))
                   = sinkCalls m
                 \<and> deferred (snd (createStyle e2 styles options (snd (createStyle e1 styles options m))))
                     = deferred m @ [ruleTextOf e1 styles options m]))"
proof -
  let ?m1 = "snd (createStyle e1 styles options m)"
  note first = createStyle_miss [OF en key miss nonblank fresh ok]
  from first have cfg: "config ?m1 = config m" by simp
  from first obtain item where item: "map_of (styleCache ?m1) k = Some item"
    and name: "itemName item = fst (createStyle e1 styles options m)" by auto
  from en cfg have en1: "cacheEnabled ?m1" by (simp add: cacheEnabled_def)
  from key have key1: "createCacheKey styles (finalOptionsValue (mkFinalOptions options ?m1)) = Inr k"
    by (simp add: mkFinalOptions_config [OF cfg])
  note second = createStyle_hit [OF en1 key1 item, of e2]
  from first second name show ?thesis by auto
qed

theorem createStyle_twice_same_identifier_witness:
  "cacheEnabled (newManager envA)
   \<and> createCacheKey (Obj [(''color'', Str ''blue'')])
         (finalOptionsValue (mkFinalOptions None (newManager envA))) = Inr ''53br5g''
   \<and> map_of (styleCache (newManager envA)) ''53br5g'' = None
   \<and> ruleTextOf envA (Obj [(''color'', Str ''blue'')]) None (newManager envA)
       = ''.css-k3j9x2ablfls {'' @ NL @ ''  color: blue;'' @ NL @ ''}''
   \<and> sink envA (''.css-k3j9x2ablfls {'' @ NL @ ''  color: blue;'' @ NL @ ''}'') = Injected
   \<and> fst (createStyle envA (Obj [(''color'', Str ''blue'')]) None (newManager envA))
       = ''css-k3j9x2ablfls''
   \<and> fst (createStyle envB (Obj [(''color'', Str ''blue'')]) None
            (snd (createStyle envA (Obj [(''color'', Str ''blue'')]) None (newManager envA))))
       = ''css-k3j9x2ablfls''
   \<and> sinkCalls (snd (createStyle envB (Obj [(''color'', Str ''blue'')]) None
            (snd (createStyle envA (Obj [(''color'', Str ''blue'')]) None (newManager envA)))))
       = [''.css-k3j9x2ablfls {'' @ NL @ ''  color: blue;'' @ NL @ ''}'']
   \<and> deferred (snd (createStyle envB (Obj [(''color'', Str ''blue'')]) None
            (snd (createStyle envA (Obj [(''color'', Str ''blue'')]) None (newManager envA)))))
       = []"
proof -
  let ?blue = "Obj [(''color'', Str ''blue'')]"
  have h1: "cacheEnabled (newManager envA)"
    by code_simp
  have h2: "createCacheKey ?blue (finalOptionsValue (mkFinalOptions None (newManager envA)))
              = Inr ''53br5g''"
    by code_simp
  have h3: "map_of (styleCache (newManager envA)) ''53br5g'' = None"
    by code_simp
  have t: "ruleTextOf envA ?blue None (newManager envA)
             = ''.css-k3j9x2ablfls {'' @ NL @ ''  color: blue;'' @ NL @ ''}''"
    by code_simp
  have h4: "trim (ruleTextOf envA ?blue None (newManager envA)) \<noteq> []"
    by code_simp
  have h5: "ruleTextOf envA ?blue None (newManager envA) \<notin> injectedRules (newManager envA)"
    by (simp add: newManager_def)
  have h6: "sink envA (ruleTextOf envA ?blue None (newManager envA)) = Injected"
    by (simp add: envA_def constantSink_def)
  have n: "fst (createStyle envA ?blue None (newManager envA)) = ''css-k3j9x2ablfls''"
    by code_simp
  have d: "deferred (snd (createStyle envB ?blue None
              (snd (createStyle envA ?blue None (newManager envA))))) = []"
    by code_simp
  have z: "sinkCalls (newManager envA) = []" "deferred (newManager envA) = []"
    by (simp_all add: newManager_def)
  from createStyle_twice_same_identifier [OF h1 h2 h3 h4 h5 h6, of envB] h1 h2 h3 h6 t n d z
  show ?thesis
    by simp
qed

section \<open>Configure, compile, look up, clear\<close>

text \<open>
  The scenario of C2 on a fresh process: the prefix is set to \<^verbatim>\<open>t\<close>, then \<^verbatim>\<open>{color: 'blue'}\<close>
  is compiled with a Sink that accepts every text.
\<close>

definition blue :: jsvalue where
  "blue = Obj [(''color'', Str ''blue'')]"

definition configuredT :: "manager option" where
  "configuredT = apiConfigure [SetClassNamePrefix (Some ''t'')] envA None"

definition compiledBlue :: "string \<times> manager option" where
  "compiledBlue = css (StaticStyle blue :: unit styleDefinition) None None envA configuredT"

text \<open>
  C2 says that \<^verbatim>\<open>hasStyle({color: 'blue'})\<close> is true right after the compilation and false
  after \<^verbatim>\<open>clearCache()\<close>. In the code the identifier is \<^verbatim>\<open>t-\<close> and a token, and the entry is
  cached, but under the fingerprint of the styles together with the final options, while
  \<^verbatim>\<open>hasStyle\<close> looks up the fingerprint of the styles alone: it answers false right after
  the compilation (and false again after the clearing).
\<close>

theorem hasStyle_misses_created_style:
  "fst compiledBlue = ''t-k3j9x2ablfls''
   \<and> map fst (styleCache (getInstance envB (snd compiledBlue))) = [''rqdo8t'']
   \<and> createCacheKey blue Undefined = Inr ''snxwu5''
   \<and> fst (apiHasStyle blue envB (snd compiledBlue)) = False
   \<and> fst (apiHasStyle blue envB (apiClearCache envB (snd compiledBlue))) = False"
  by code_simp

theorem hasStyle_misses_created_style_witness:
  "fst (apiHasStyle blue envB (snd compiledBlue)) \<noteq> True
   \<and> startsWith (fst compiledBlue) ''t-''"
proof -
  have "startsWith ''t-k3j9x2ablfls'' ''t-''"
    by code_simp
  with hasStyle_misses_created_style show ?thesis
    by simp
qed

section \<open>Unit inference\<close>

text \<open>
  C3, as stated: a finite number for a property in neither table gets \<^verbatim>\<open>px\<close>. It fails for
  \<^verbatim>\<open>motionDurationFast\<close>, which is in neither table: \<^verbatim>\<open>addUnit\<close> has a branch of its own for
  names that start with \<^verbatim>\<open>motionDuration\<close> and appends \<^verbatim>\<open>ms\<close>.
\<close>

theorem addUnit_motionDuration_counterexample:
  "''motionDurationFast'' \<notin> set UNITLESS_PROPERTIES
   \<and> ''motionDurationFast'' \<notin> set PIXEL_PROPERTIES
   \<and> isNumber (Num (Finite 100 0))
   \<and> addUnit ''motionDurationFast'' (Num (Finite 100 0)) = ''100ms''
   \<and> addUnit ''motionDurationFast'' (Num (Finite 100 0))
       \<noteq> jsString (Num (Finite 100 0)) @ ''px''"
  by code_simp

text \<open>
  C3, amended: for every property name whose looked-up form (camel-cased when the name has
  a hyphen) is in neither the unitless table nor the pixel table and does not start with
  \<^verbatim>\<open>motionDuration\<close>, \<^verbatim>\<open>addUnit\<close> on a finite number yields the number followed by \<^verbatim>\<open>px\<close>.
\<close>

theorem addUnit_default_px:
  assumes "isNumber v"
    and "camelProperty property \<notin> set UNITLESS_PROPERTIES"
    and "camelProperty property \<notin> set PIXEL_PROPERTIES"
    and "\<not> startsWith (camelProperty property) ''motionDuration''"
  shows "addUnit property v = jsString v @ ''px''"
proof -
  from assms(1) obtain n where "v = Num n"
    by (cases v) (simp_all add: isNumber_def)
  with assms show ?thesis
    by (simp add: addUnit_def)
qed

theorem addUnit_default_px_witness:
  "isNumber (Num (Finite 12 0))
   \<and> camelProperty ''scroll-margin'' \<notin> set UNITLESS_PROPERTIES
   \<and> camelProperty ''scroll-margin'' \<notin> set PIXEL_PROPERTIES
   \<and> \<not> startsWith (camelProperty ''scroll-margin'') ''motionDuration''
   \<and> addUnit ''scroll-margin'' (Num (Finite 12 0)) = ''12px''"
proof -
  have h1: "isNumber (Num (Finite 12 0))"
    by code_simp
  have h2: "camelProperty ''scroll-margin'' \<notin> set UNITLESS_PROPERTIES"
    by code_simp
  have h3: "camelProperty ''scroll-margin'' \<notin> set PIXEL_PROPERTIES"
    by code_simp
  have h4: "\<not> startsWith (camelProperty ''scroll-margin'') ''motionDuration''"
    by code_simp
  have h5: "jsString (Num (Finite 12 0)) @ ''px'' = ''12px''"
    by code_simp
  from addUnit_default_px [OF h1 h2 h3 h4] h1 h2 h3 h4 h5 show ?thesis
    by simp
qed

section \<open>Selector flattening\<close>

text \<open>
  C4: compiling \<^verbatim>\<open>{padding: 8, '&:hover': {opacity: 0.9}}\<close> for the class \<^verbatim>\<open>x\<close> (root selector
  \<^verbatim>\<open>.x\<close>) yields the block of \<^verbatim>\<open>.x\<close> followed by the block of \<^verbatim>\<open>.x:hover\<close>. The text splits
  into exactly these two top-level rules, neither inside the other, and with white space
  collapsed it reads \<^verbatim>\<open>.x { padding: 8px; } .x:hover { opacity: 0.9; }\<close>.
\<close>

theorem flattening_example:
  "map_sum id cssText
     (parseStyles (Obj [(''padding'', Num (Finite 8 0)),
                        (''&:hover'', Obj [(''opacity'', Num (Finite 9 1))])]) (Some ''x''))
   = Inr (''.x {'' @ NL @ ''  padding: 8px;'' @ NL @ ''}'' @ NL
          @ ''.x:hover {'' @ NL @ ''  opacity: 0.9;'' @ NL @ ''}'')
   \<and> splitCSSRules (''.x {'' @ NL @ ''  padding: 8px;'' @ NL @ ''}'' @ NL
          @ ''.x:hover {'' @ NL @ ''  opacity: 0.9;'' @ NL @ ''}'')
     = [''.x {'' @ NL @ ''  padding: 8px;'' @ NL @ ''}'',
        ''.x:hover {'' @ NL @ ''  opacity: 0.9;'' @ NL @ ''}'']
   \<and> collapseSpaces False (''.x {'' @ NL @ ''  padding: 8px;'' @ NL @ ''}'' @ NL
          @ ''.x:hover {'' @ NL @ ''  opacity: 0.9;'' @ NL @ ''}'')
     = ''.x { padding: 8px; } .x:hover { opacity: 0.9; }''"
  by code_simp

section \<open>The cache bound\<close>

lemma sweep_bound:
  "0 \<le> maxSize \<Longrightarrow> int (length kept) \<le> maxSize \<Longrightarrow>
   int (length (sweep t maxAge maxSize kept rest)) \<le> maxSize"
proof (induction rest arbitrary: kept)
  case Nil
  then show ?case by simp
next
  case (Cons entry rest)
  obtain key item where e: "entry = (key, item)" by (cases entry)
  show ?case
  proof (cases "t - lastUsed item > maxAge \<or> int (length kept + Suc (length rest)) > maxSize")
    case True
    with e Cons show ?thesis by simp
  next
    case False
    then have "int (length (kept @ [(key, item)])) \<le> maxSize" by simp
    from Cons.IH [OF Cons.prems(1) this] False e show ?thesis by simp
  qed
qed

definition twoStyles :: "(env \<times> jsvalue \<times> CSSOptions option) list" where
  "twoStyles =
     [(envA, Obj [(''color'', Str ''blue'')], None),
      (envB, Obj [(''color'', Str ''red'')], None)]"

text \<open>
  C5, as stated, for every configured maximum \<open>m\<close>. It fails at \<open>m = 0\<close>: \<^verbatim>\<open>cleanupCache\<close> reads
  the bound as \<^verbatim>\<open>this.config.maxCacheSize || 10000\<close>, so a configured 0 counts as unset, and
  after one insertion and the sweep the cache still holds one entry.
\<close>

theorem cache_bound_zero_counterexample:
  "maxCacheSize (config (configure [SetMaxCacheSize (Some 0)] (newManager envA))) = Some 0
   \<and> length (styleCache (cleanupCache envB (snd (runCreateStyle
         [(envA, Obj [(''color'', Str ''blue'')], None)]
         (configure [SetMaxCacheSize (Some 0)] (newManager envA)))))) = 1
   \<and> \<not> int (length (styleCache (cleanupCache envB (snd (runCreateStyle
         [(envA, Obj [(''color'', Str ''blue'')], None)]
         (configure [SetMaxCacheSize (Some 0)] (newManager envA))))))) \<le> 0"
  by code_simp

text \<open>
  C5, amended: for every positive configured maximum \<open>n\<close>, with caching enabled, after any
  run of \<^verbatim>\<open>createStyle\<close> calls (in particular one that inserts \<open>n + 1\<close> distinct styles) and
  then \<^verbatim>\<open>cleanupCache\<close>, the style cache holds at most \<open>n\<close> entries.
\<close>

theorem cache_bound_after_cleanup:
  assumes "cacheEnabled m"
    and "maxCacheSize (config m) = Some n"
    and "0 < n"
  shows "int (length (styleCache (cleanupCache e (snd (runCreateStyle calls m))))) \<le> n"
proof -
  let ?m = "snd (runCreateStyle calls m)"
  have c: "config ?m = config m" by (rule config_runCreateStyle)
  with assms have en: "cacheEnabled ?m" and sz: "effectiveMaxSize ?m = n"
    by (simp_all add: cacheEnabled_def effectiveMaxSize_def)
  from assms(3) have "int (length (sweep (clock e) (30 * 60 * 1000) n [] (styleCache ?m))) \<le> n"
    by (intro sweep_bound) simp_all
  with en sz show ?thesis by (simp add: cleanupCache_def Let_def)
qed

theorem cache_bound_after_cleanup_witness:
  "cacheEnabled (configure [SetMaxCacheSize (Some 1)] (newManager envA))
   \<and> maxCacheSize (config (configure [SetMaxCacheSize (Some 1)] (newManager envA))) = Some 1
   \<and> (0::int) < 1
   \<and> length (styleCache (snd (runCreateStyle twoStyles
         (configure [SetMaxCacheSize (Some 1)] (newManager envA))))) = 2
   \<and> int (length (styleCache (cleanupCache envB (snd (runCreateStyle twoStyles
         (configure [SetMaxCacheSize (Some 1)] (newManager envA))))))) \<le> 1"
proof -
  have h1: "cacheEnabled (configure [SetMaxCacheSize (Some 1)] (newManager envA))"
    by code_simp
  have h2: "maxCacheSize (config (configure [SetMaxCacheSize (Some 1)] (newManager envA))) = Some 1"
    by code_simp
  have h3: "(0::int) < 1" by simp
  have h4: "length (styleCache (snd (runCreateStyle twoStyles
         (configure [SetMaxCacheSize (Some 1)] (newManager envA))))) = 2"
    by code_simp
  from cache_bound_after_cleanup [OF h1 h2 h3, of envB twoStyles] h1 h2 h4 show ?thesis
    by simp
qed

section \<open>A Sink that always fails\<close>

definition sameStyleTwice :: "(env \<times> jsvalue \<times> CSSOptions option) list" where
  "sameStyleTwice =
     [(envRejecting, Obj [(''color'', Str ''blue'')], None),
      (envThrowing, Obj [(''color'', Str ''blue'')], None)]"

lemma injectCSS_failing:
  assumes "\<forall>t. sink e t \<noteq> Injected"
    and "insertionMode (config m) = Some SYNC \<or> insertionMode (config m) = None"
    and "injectedRules m = {}"
  shows "injectCSS e t m
           = (False, if trim t \<noteq> [] then m\<lparr>sinkCalls := sinkCalls m @ [t]\<rparr> else m)"
proof -
  from assms(1) have "sink e t = Rejected \<or> sink e t = Threw"
    by (cases "sink e t") auto
  with assms(2,3) show ?thesis
    by (auto simp: injectCSS_def syncAttempt_def callSink_def Let_def)
qed

lemma createStyle_failing:
  assumes fail: "\<forall>t. sink e t \<noteq> Injected"
    and mode: "insertionMode (config m) = Some SYNC \<or> insertionMode (config m) = None"
    and empty: "styleCache m = []"
    and none: "injectedRules m = {}"
  shows "fst (createStyle e styles options m) \<noteq> []
         \<and> styleCache (snd (createStyle e styles options m)) = []
         \<and> injectedRules (snd (createStyle e styles options m)) = {}
         \<and> sinkCalls (snd (createStyle e styles options m))
             = sinkCalls m @ (if trim (ruleTextOf e styles options m) \<noteq> []
                              then [ruleTextOf e styles options m] else [])"
proof -
  let ?fo = "mkFinalOptions options m"
  let ?cls = "managerClassName e ?fo"
  let ?m1 = "m\<lparr>stats := (stats m)\<lparr>cacheMisses := cacheMisses (stats m) + 1\<rparr>\<rparr>"
  have inj: "\<And>t. injectCSS e t ?m1
           = (False, if trim t \<noteq> [] then ?m1\<lparr>sinkCalls := sinkCalls ?m1 @ [t]\<rparr> else ?m1)"
    using injectCSS_failing [OF fail, of ?m1] mode none by simp
  show ?thesis
  proof (cases "if cacheEnabled m then createCacheKey styles (finalOptionsValue ?fo) else Inr []")
    case (Inl err)
    then have en: "cacheEnabled m" by (simp split: if_splits)
    from Inl en have undef: "styles = Undefined \<or> styles = Null"
      by (auto simp: createCacheKey_def stringifySorted_def finalOptionsValue_def
               split: sum.splits if_splits)
    then have rt: "ruleTextOf e styles options m = []"
      by (auto simp: ruleTextOf_def parseStyles_def)
    from Inl show ?thesis
      using empty none rt
      by (simp add: createStyle_def Let_def createStyleFallback_def generateClassName_nonempty
            trim_Nil)
  next
    case (Inr cacheKey)
    show ?thesis
    proof (cases "parseStyles styles (Some ?cls)")
      case (Inl err)
      then have rt: "ruleTextOf e styles options m = []"
        by (simp add: ruleTextOf_def)
      from Inl Inr show ?thesis
        using empty none rt
        by (simp add: createStyle_def Let_def createStyleFallback_def generateClassName_nonempty
              trim_Nil)
    next
      case (Inr parseResult)
      then have rt: "ruleTextOf e styles options m = cssText parseResult"
        by (simp add: ruleTextOf_def)
      from Inr \<open>(if cacheEnabled m then createCacheKey styles (finalOptionsValue ?fo) else Inr [])
                 = Inr cacheKey\<close>
      show ?thesis
        using empty none rt inj [of "cssText parseResult"]
        by (simp add: createStyle_def Let_def managerClassName_nonempty trim_Nil)
    qed
  qed
qed

lemma runCreateStyle_failing:
  assumes "\<forall>call \<in> set calls. \<forall>t. sink (fst call) t \<noteq> Injected"
    and "insertionMode (config m) = Some SYNC \<or> insertionMode (config m) = None"
    and "styleCache m = []"
    and "injectedRules m = {}"
    and "config m = config m0"
  shows "(\<forall>cls \<in> set (fst (runCreateStyle calls m)). cls \<noteq> [])
         \<and> length (fst (runCreateStyle calls m)) = length calls
         \<and> styleCache (snd (runCreateStyle calls m)) = []
         \<and> sinkCalls (snd (runCreateStyle calls m))
             = sinkCalls m
               @ filter (\<lambda>t. trim t \<noteq> [])
                   (map (\<lambda>call. ruleTextOf (fst call) (fst (snd call)) (snd (snd call)) m0) calls)"
  using assms
proof (induction calls arbitrary: m)
  case Nil
  then show ?case by simp
next
  case (Cons call calls)
  obtain e styles options where c: "call = (e, styles, options)" by (cases call)
  let ?m1 = "snd (createStyle e styles options m)"
  from Cons.prems(1) c have fail: "\<forall>t. sink e t \<noteq> Injected" by simp
  note step = createStyle_failing [OF fail Cons.prems(2) Cons.prems(3) Cons.prems(4),
                of styles options]
  have cfg: "config ?m1 = config m" by (rule config_createStyle)
  from Cons.prems(1) have rest: "\<forall>call \<in> set calls. \<forall>t. sink (fst call) t \<noteq> Injected" by simp
  have mode1: "insertionMode (config ?m1) = Some SYNC \<or> insertionMode (config ?m1) = None"
    using Cons.prems(2) cfg by simp
  have cfg0: "config ?m1 = config m0" using cfg Cons.prems(5) by simp
  note ih = Cons.IH [OF rest mode1 _ _ cfg0]
  have rt: "ruleTextOf e styles options m = ruleTextOf e styles options m0"
    using Cons.prems(5) by (rule ruleTextOf_config)
  from step ih rt c show ?case
    by (simp add: case_prod_unfold Let_def)
qed

text \<open>
  C6, as stated, for every Sink that fails every materialization. It fails in the deferred
  insertion mode: there \<^verbatim>\<open>injectCSS\<close> only schedules the Sink call and reports success, so
  the entry is cached although the Sink rejects every text.
\<close>

theorem deferred_mode_caches_counterexample:
  "sink envRejecting = constantSink Rejected
   \<and> insertionMode (config (configure [SetInsertionMode (Some ASYNC)] (newManager envRejecting)))
       = Some ASYNC
   \<and> map (itemName \<circ> snd) (styleCache (snd (createStyle envRejecting (Obj [(''color'', Str ''blue'')]) None
         (configure [SetInsertionMode (Some ASYNC)] (newManager envRejecting)))))
       = [''css-k3j9x2ablfls'']"
proof -
  have s: "sink envRejecting = constantSink Rejected"
    by (simp add: envRejecting_def)
  have r: "insertionMode (config (configure [SetInsertionMode (Some ASYNC)] (newManager envRejecting)))
       = Some ASYNC
   \<and> map (itemName \<circ> snd) (styleCache (snd (createStyle envRejecting (Obj [(''color'', Str ''blue'')]) None
         (configure [SetInsertionMode (Some ASYNC)] (newManager envRejecting)))))
       = [''css-k3j9x2ablfls'']"
    by code_simp
  from s r show ?thesis by simp
qed

text \<open>
  C6, amended: in the synchronous insertion mode (the default), starting with nothing
  cached or injected, if the Sink rejects or throws on every text, then every
  \<^verbatim>\<open>createStyle\<close> call of a run returns a non-empty identifier (the throwing paths end in
  the fallback identifier, so each call returns), the style cache stays empty, and each
  call hands its compiled text to the Sink again, also when the input repeats.
\<close>

theorem failing_sink_never_caches:
  assumes "\<forall>call \<in> set calls. \<forall>t. sink (fst call) t \<noteq> Injected"
    and "insertionMode (config m) = Some SYNC \<or> insertionMode (config m) = None"
    and "styleCache m = []"
    and "injectedRules m = {}"
  shows "(\<forall>cls \<in> set (fst (runCreateStyle calls m)). cls \<noteq> [])
         \<and> length (fst (runCreateStyle calls m)) = length calls
         \<and> styleCache (snd (runCreateStyle calls m)) = []
         \<and> sinkCalls (snd (runCreateStyle calls m))
             = sinkCalls m
               @ filter (\<lambda>t. trim t \<noteq> [])
                   (map (\<lambda>call. ruleTextOf (fst call) (fst (snd call)) (snd (snd call)) m) calls)"
  using runCreateStyle_failing [OF assms, of m] by simp

theorem failing_sink_never_caches_witness:
  "map fst sameStyleTwice = [envRejecting, envThrowing]
   \<and> (\<forall>t. sink envRejecting t \<noteq> Injected) \<and> (\<forall>t. sink envThrowing t \<noteq> Injected)
   \<and> (insertionMode (config (newManager envRejecting)) = Some SYNC
       \<or> insertionMode (config (newManager envRejecting)) = None)
   \<and> styleCache (newManager envRejecting) = []
   \<and> injectedRules (newManager envRejecting) = {}
   \<and> fst (runCreateStyle sameStyleTwice (newManager envRejecting))
       = [''css-k3j9x2ablfls'', ''css-q8w1z5cdlflz'']
   \<and> styleCache (snd (runCreateStyle sameStyleTwice (newManager envRejecting))) = []
   \<and> sinkCalls (snd (runCreateStyle sameStyleTwice (newManager envRejecting)))
       = [''.css-k3j9x2ablfls {'' @ NL @ ''  color: blue;'' @ NL @ ''}'',
          ''.css-q8w1z5cdlflz {'' @ NL @ ''  color: blue;'' @ NL @ ''}'']"
proof -
  have envs: "map fst sameStyleTwice = [envRejecting, envThrowing]"
    by (simp add: sameStyleTwice_def)
  have rej: "\<forall>t. sink envRejecting t \<noteq> Injected"
    by (simp add: envRejecting_def constantSink_def)
  have thr: "\<forall>t. sink envThrowing t \<noteq> Injected"
    by (simp add: envThrowing_def constantSink_def)
  have h1: "\<forall>call \<in> set sameStyleTwice. \<forall>t. sink (fst call) t \<noteq> Injected"
    using rej thr by (simp add: sameStyleTwice_def)
  have h2: "insertionMode (config (newManager envRejecting)) = Some SYNC
            \<or> insertionMode (config (newManager envRejecting)) = None"
    by code_simp
  have h3: "styleCache (newManager envRejecting) = []"
    by code_simp
  have h4: "injectedRules (newManager envRejecting) = {}"
    by (simp add: newManager_def)
  have h5: "fst (runCreateStyle sameStyleTwice (newManager envRejecting))
              = [''css-k3j9x2ablfls'', ''css-q8w1z5cdlflz'']"
    by code_simp
  have h6: "sinkCalls (newManager envRejecting)
              @ filter (\<lambda>t. trim t \<noteq> [])
                  (map (\<lambda>call. ruleTextOf (fst call) (fst (snd call)) (snd (snd call))
                                 (newManager envRejecting)) sameStyleTwice)
            = [''.css-k3j9x2ablfls {'' @ NL @ ''  color: blue;'' @ NL @ ''}'',
               ''.css-q8w1z5cdlflz {'' @ NL @ ''  color: blue;'' @ NL @ ''}'']"
    by code_simp
  from failing_sink_never_caches [OF h1 h2 h3 h4] envs rej thr h2 h3 h4 h5 h6 show ?thesis
    by simp
qed

section \<open>Keyframes: order of the stops, nested keys\<close>

text \<open>
  In terms of the compiler's own inner loop: the declarations of a stop, the block a stop
  is emitted as, whether a stop is emitted (it is not when it has no declaration), and a
  stop with its nested mappings removed.
\<close>

definition plainDeclarations :: "jsvalue \<Rightarrow> string list" where
  "plainDeclarations styles = stopDeclarations (objectEntries styles) []"

definition stopRule :: "string \<times> jsvalue \<Rightarrow> string" where
  "stopRule stop =
     ''  '' @ fst stop @ '' {'' @ NL @ joinWith NL (plainDeclarations (snd stop)) @ NL @ ''  }''"

definition emitsStop :: "string \<times> jsvalue \<Rightarrow> bool" where
  "emitsStop stop \<longleftrightarrow> plainDeclarations (snd stop) \<noteq> []"

fun withoutNested :: "jsvalue \<Rightarrow> jsvalue" where
  "withoutNested (Obj ps) = Obj (filter (\<lambda>p. \<not> isObj (snd p)) ps)"
| "withoutNested v = v"

lemma ownEntries_no_index:
  "\<forall>p \<in> set ps. \<not> isArrayIndex (fst p) \<Longrightarrow> ownEntries ps = ps"
  by (induction ps) (auto simp: ownEntries_def case_prod_unfold)

lemma ownEntries_filter:
  "ownEntries (filter Q ps) = filter Q (ownEntries ps)"
  by (simp add: ownEntries_def filter_sort filter_filter conj_commute)

lemma stopDeclarations_filter:
  "stopDeclarations (filter (\<lambda>p. \<not> isObj (snd p)) es) decls = stopDeclarations es decls"
proof (induction es arbitrary: decls)
  case Nil
  show ?case by simp
next
  case (Cons p es)
  obtain k v where p: "p = (k, v)" by (cases p)
  show ?case
  proof (cases "isObj v")
    case True
    then obtain ps where "v = Obj ps" by (cases v) simp_all
    with p Cons show ?thesis by simp
  next
    case False
    with p Cons show ?thesis by simp
  qed
qed

lemma plainDeclarations_withoutNested:
  "plainDeclarations (withoutNested styles) = plainDeclarations styles"
  by (cases styles) (simp_all add: plainDeclarations_def ownEntries_filter stopDeclarations_filter)

lemma keyframeLoop_characterised:
  "\<forall>stop \<in> set stops. snd stop \<noteq> Undefined \<and> snd stop \<noteq> Null \<Longrightarrow>
   keyframeLoop stops acc = Inr (acc @ map stopRule (filter emitsStop stops))"
proof (induction stops arbitrary: acc)
  case Nil
  show ?case by simp
next
  case (Cons stop stops)
  obtain keyframe styles where s: "stop = (keyframe, styles)" by (cases stop)
  from Cons.prems s have ok: "styles \<noteq> Undefined" "styles \<noteq> Null" by auto
  from Cons.prems have rest: "\<forall>stop \<in> set stops. snd stop \<noteq> Undefined \<and> snd stop \<noteq> Null"
    by simp
  show ?case
    using ok s Cons.IH [OF rest]
    by (simp add: Let_def emitsStop_def stopRule_def plainDeclarations_def)
qed

text \<open>
  Property enumeration keeps the properties and only changes their order, and it commutes
  with a change of the values.
\<close>

lemma set_ownEntries: "set (ownEntries ps) = set ps"
  by (auto simp: ownEntries_def)

lemma insort_key_map_values:
  "insort_key f (h x) (map h ys) = map h (insort_key (\<lambda>y. f (h y)) x ys)"
  by (induction ys) simp_all

lemma sort_key_map_values:
  "sort_key f (map h xs) = map h (sort_key (\<lambda>y. f (h y)) xs)"
  by (induction xs) (simp_all add: insort_key_map_values)

lemma ownEntries_map_values:
  "ownEntries (map (\<lambda>p. (fst p, g (snd p))) ps) = map (\<lambda>p. (fst p, g (snd p))) (ownEntries ps)"
  by (simp add: ownEntries_def filter_map sort_key_map_values comp_def case_prod_unfold)

text \<open>Two stop maps: one with percentage labels, one with bare numbers as labels.\<close>

definition pulse :: "(string \<times> jsvalue) list" where
  "pulse =
     [(''50%'', Obj [(''opacity'', Num (Finite 5 1)),
                     (''&:hover'', Obj [(''color'', Str ''red'')])]),
      (''0%'', Obj [(''opacity'', Num (Finite 0 0))]),
      (''to'', Obj [(''span'', Obj [(''color'', Str ''blue'')])])]"

definition fadeIn :: "(string \<times> jsvalue) list" where
  "fadeIn =
     [(''100'', Obj [(''opacity'', Num (Finite 1 0))]),
      (''0'', Obj [(''opacity'', Num (Finite 0 0))])]"

text \<open>
  C7, as stated: for every keyframe stop map the stops are emitted in the insertion order of
  the input, never reordered numerically. It fails: a stop label is any string, and for the
  map \<^verbatim>\<open>{'100': {opacity: 1}, '0': {opacity: 0}}\<close> the loop over \<^verbatim>\<open>Object.entries\<close> meets the
  array-index keys in ascending numeric order, so the block of \<^verbatim>\<open>0\<close> is emitted before the
  block of \<^verbatim>\<open>100\<close>.
\<close>

theorem keyframes_numeric_labels_counterexample:
  "map fst fadeIn = [''100'', ''0'']
   \<and> parseKeyframes (Obj fadeIn)
       = Inr (''  0 {'' @ NL @ ''    opacity: 0;'' @ NL @ ''  }'' @ NL
              @ ''  100 {'' @ NL @ ''    opacity: 1;'' @ NL @ ''  }'')
   \<and> generateKeyframesRule ''fade'' (Obj fadeIn)
       = Inr (''@keyframes fade {'' @ NL
              @ ''  0 {'' @ NL @ ''    opacity: 0;'' @ NL @ ''  }'' @ NL
              @ ''  100 {'' @ NL @ ''    opacity: 1;'' @ NL @ ''  }'' @ NL @ ''}'')"
  by code_simp

text \<open>
  C7, amended: for every stop map whose stops are style descriptions, the keyframe compiler
  returns without error the blocks of the emitted stops in the order of property
  enumeration (labels that are array indices first, in ascending numeric order, then the
  other labels in insertion order); this is the insertion order of the input whenever no
  label is an array index, as for percentages, comma lists, \<^verbatim>\<open>from\<close> and \<^verbatim>\<open>to\<close>; and
  removing from every stop the keys whose value is a nested mapping leaves the result
  unchanged.
\<close>

theorem keyframes_enumeration_order_skip_nested:
  assumes stops_defined: "\<forall>stop \<in> set stops. snd stop \<noteq> Undefined \<and> snd stop \<noteq> Null"
  shows "parseKeyframes (Obj stops)
           = Inr (joinWith NL (map stopRule (filter emitsStop (ownEntries stops))))
         \<and> generateKeyframesRule animationName (Obj stops)
             = Inr (''@keyframes '' @ animationName @ '' {'' @ NL
                    @ joinWith NL (map stopRule (filter emitsStop (ownEntries stops))) @ NL @ ''}'')
         \<and> subseq (map fst (filter emitsStop (ownEntries stops))) (map fst (ownEntries stops))
         \<and> ((\<forall>stop \<in> set stops. \<not> isArrayIndex (fst stop)) \<longrightarrow>
              ownEntries stops = stops
              \<and> parseKeyframes (Obj stops)
                  = Inr (joinWith NL (map stopRule (filter emitsStop stops)))
              \<and> subseq (map fst (filter emitsStop stops)) (map fst stops))
         \<and> parseKeyframes (Obj (map (\<lambda>stop. (fst stop, withoutNested (snd stop))) stops))
             = parseKeyframes (Obj stops)"
proof -
  let ?strip = "\<lambda>stop :: string \<times> jsvalue. (fst stop, withoutNested (snd stop))"
  let ?entries = "ownEntries stops"
  have entries_defined: "\<forall>stop \<in> set ?entries. snd stop \<noteq> Undefined \<and> snd stop \<noteq> Null"
    using stops_defined by (simp add: set_ownEntries)
  have first: "parseKeyframes (Obj stops)
                 = Inr (joinWith NL (map stopRule (filter emitsStop ?entries)))"
    using keyframeLoop_characterised [OF entries_defined, of "[]"]
    by (simp add: parseKeyframes_def)
  have order: "subseq (map fst (filter emitsStop ?entries)) (map fst ?entries)"
    by (simp add: subseq_map)
  have insertion: "(\<forall>stop \<in> set stops. \<not> isArrayIndex (fst stop)) \<longrightarrow>
                   ownEntries stops = stops
                   \<and> parseKeyframes (Obj stops)
                       = Inr (joinWith NL (map stopRule (filter emitsStop stops)))
                   \<and> subseq (map fst (filter emitsStop stops)) (map fst stops)"
  proof
    assume labels: "\<forall>stop \<in> set stops. \<not> isArrayIndex (fst stop)"
    then have same: "ownEntries stops = stops" by (rule ownEntries_no_index)
    with first order show "ownEntries stops = stops
        \<and> parseKeyframes (Obj stops) = Inr (joinWith NL (map stopRule (filter emitsStop stops)))
        \<and> subseq (map fst (filter emitsStop stops)) (map fst stops)"
      by simp
  qed
  have defined': "\<forall>stop \<in> set (ownEntries (map ?strip stops)).
                    snd stop \<noteq> Undefined \<and> snd stop \<noteq> Null"
  proof
    fix stop assume "stop \<in> set (ownEntries (map ?strip stops))"
    then have "stop \<in> set (map ?strip stops)" by (simp add: set_ownEntries)
    then obtain orig where o: "orig \<in> set stops" "stop = ?strip orig" by auto
    with stops_defined have "snd orig \<noteq> Undefined \<and> snd orig \<noteq> Null" by blast
    with o show "snd stop \<noteq> Undefined \<and> snd stop \<noteq> Null" by (cases "snd orig") simp_all
  qed
  have same_rules: "map stopRule (filter emitsStop (map ?strip es)) = map stopRule (filter emitsStop es)"
    for es
    by (induction es) (auto simp: emitsStop_def stopRule_def plainDeclarations_withoutNested)
  have "parseKeyframes (Obj (map ?strip stops))
          = Inr (joinWith NL (map stopRule (filter emitsStop (ownEntries (map ?strip stops)))))"
    using keyframeLoop_characterised [OF defined', of "[]"]
    by (simp add: parseKeyframes_def)
  also have "ownEntries (map ?strip stops) = map ?strip ?entries"
    by (rule ownEntries_map_values)
  finally have "parseKeyframes (Obj (map ?strip stops)) = parseKeyframes (Obj stops)"
    using first same_rules [of ?entries] by simp
  with first order insertion show ?thesis by (simp add: generateKeyframesRule_def)
qed

theorem keyframes_enumeration_order_skip_nested_witness:
  "list_all (\<lambda>stop. snd stop \<noteq> Undefined \<and> snd stop \<noteq> Null) pulse
   \<and> list_all (\<lambda>stop. \<not> isArrayIndex (fst stop)) pulse
   \<and> map fst pulse = [''50%'', ''0%'', ''to'']
   \<and> ownEntries pulse = pulse
   \<and> parseKeyframes (Obj pulse)
       = Inr (''  50% {'' @ NL @ ''    opacity: 0.5;'' @ NL @ ''  }'' @ NL
              @ ''  0% {'' @ NL @ ''    opacity: 0;'' @ NL @ ''  }'')
   \<and> generateKeyframesRule ''pulse'' (Obj pulse)
       = Inr (''@keyframes pulse {'' @ NL
              @ ''  50% {'' @ NL @ ''    opacity: 0.5;'' @ NL @ ''  }'' @ NL
              @ ''  0% {'' @ NL @ ''    opacity: 0;'' @ NL @ ''  }'' @ NL @ ''}'')
   \<and> parseKeyframes (Obj (map (\<lambda>stop. (fst stop, withoutNested (snd stop))) pulse))
       = parseKeyframes (Obj pulse)"
proof -
  have l1: "list_all (\<lambda>stop. snd stop \<noteq> Undefined \<and> snd stop \<noteq> Null) pulse"
    by code_simp
  have l2: "list_all (\<lambda>stop. \<not> isArrayIndex (fst stop)) pulse"
    by code_simp
  have l3: "map fst pulse = [''50%'', ''0%'', ''to'']"
    by code_simp
  from l1 have h1: "\<forall>stop \<in> set pulse. snd stop \<noteq> Undefined \<and> snd stop \<noteq> Null"
    by (simp add: list_all_iff)
  from l2 have h2: "\<forall>stop \<in> set pulse. \<not> isArrayIndex (fst stop)"
    by (simp add: list_all_iff)
  have h3: "joinWith NL (map stopRule (filter emitsStop pulse))
              = ''  50% {'' @ NL @ ''    opacity: 0.5;'' @ NL @ ''  }'' @ NL
                @ ''  0% {'' @ NL @ ''    opacity: 0;'' @ NL @ ''  }''"
    by code_simp
  from keyframes_enumeration_order_skip_nested [OF h1, of "''pulse''"] h2
  have use: "ownEntries pulse = pulse
      \<and> parseKeyframes (Obj pulse) = Inr (joinWith NL (map stopRule (filter emitsStop pulse)))
      \<and> generateKeyframesRule ''pulse'' (Obj pulse)
          = Inr (''@keyframes pulse {'' @ NL
                 @ joinWith NL (map stopRule (filter emitsStop pulse)) @ NL @ ''}'')
      \<and> parseKeyframes (Obj (map (\<lambda>stop. (fst stop, withoutNested (snd stop))) pulse))
          = parseKeyframes (Obj pulse)"
    by simp
  from use l1 l2 l3 h3 show ?thesis
    by simp
qed

section \<open>Reconfiguration\<close>

text \<open>
  C8, as stated: after \<^verbatim>\<open>configure(p)\<close> the configuration is determined by \<open>p\<close> alone, with
  defaults for what \<open>p\<close> omits. It fails: after \<^verbatim>\<open>configure({classNamePrefix: 'app'})\<close>, the
  call \<^verbatim>\<open>configure({minifyCSS: true})\<close> leaves the prefix \<^verbatim>\<open>app\<close>, not the default \<^verbatim>\<open>css\<close>, so the
  same \<open>p\<close> gives two different configurations from two previous ones.
\<close>

theorem configure_replaces_counterexample:
  "classNamePrefix (config (configure [SetMinifyCSS (Some True)]
       (configure [SetClassNamePrefix (Some ''app'')] (newManager envA)))) = Some ''app''
   \<and> classNamePrefix (config (configure [SetMinifyCSS (Some True)] (newManager envA)))
       = Some ''css''
   \<and> config (configure [SetMinifyCSS (Some True)]
         (configure [SetClassNamePrefix (Some ''app'')] (newManager envA)))
       \<noteq> config (configure [SetMinifyCSS (Some True)] (newManager envA))"
  by code_simp

text \<open>
  C8, amended: \<^verbatim>\<open>configure(p)\<close> merges \<open>p\<close> into the configuration in force. An empty \<open>p\<close>
  changes nothing; configuring with \<open>p\<close> and then \<open>q\<close> is configuring once with both; and a
  \<open>p\<close> with one option sets that option and keeps every other field of the previous
  configuration.
\<close>

theorem configure_merges:
  "config (configure [] m) = config m
   \<and> config (configure (p @ q) m) = config (configure q (configure p m))
   \<and> config (configure [SetClassNamePrefix a1] m) = (config m)\<lparr>classNamePrefix := a1\<rparr>
   \<and> config (configure [SetInsertionMode a2] m) = (config m)\<lparr>insertionMode := a2\<rparr>
   \<and> config (configure [SetEnableCache a3] m) = (config m)\<lparr>enableCache := a3\<rparr>
   \<and> config (configure [SetDevelopmentMode a4] m) = (config m)\<lparr>developmentMode := a4\<rparr>
   \<and> config (configure [SetStyleTagId a5] m) = (config m)\<lparr>styleTagId := a5\<rparr>
   \<and> config (configure [SetInsertionPoint a6] m) = (config m)\<lparr>insertionPoint := a6\<rparr>
   \<and> config (configure [SetMinifyCSS a7] m) = (config m)\<lparr>minifyCSS := a7\<rparr>
   \<and> config (configure [SetMaxCacheSize a8] m) = (config m)\<lparr>maxCacheSize := a8\<rparr>"
  by (simp add: config_configure)

theorem configure_merges_witness:
  "config (configure ([SetClassNamePrefix (Some ''app'')] @ [SetMinifyCSS (Some True)])
                     (newManager envA))
     = config (configure [SetMinifyCSS (Some True)]
                (configure [SetClassNamePrefix (Some ''app'')] (newManager envA)))
   \<and> config (configure [SetMinifyCSS (Some True)]
                (configure [SetClassNamePrefix (Some ''app'')] (newManager envA)))
     = (config (configure [SetClassNamePrefix (Some ''app'')] (newManager envA)))
         \<lparr>minifyCSS := Some True\<rparr>
   \<and> classNamePrefix (config (configure [SetMinifyCSS (Some True)]
                (configure [SetClassNamePrefix (Some ''app'')] (newManager envA))))
     = Some ''app''"
proof -
  have "classNamePrefix (config (configure [SetClassNamePrefix (Some ''app'')] (newManager envA)))
          = Some ''app''"
    by code_simp
  with configure_merges [of "newManager envA" "[SetClassNamePrefix (Some ''app'')]"
         "[SetMinifyCSS (Some True)]"]
       configure_merges [of "configure [SetClassNamePrefix (Some ''app'')] (newManager envA)"
         "[]" "[]" _ _ _ _ _ _ "Some True"]
  show ?thesis by simp
qed

section \<open>Descriptions that differ only inside a nested mapping\<close>

definition hoverOpacity :: jsvalue where
  "hoverOpacity = Obj [(''&:hover'', Obj [(''opacity'', Num (Finite 1 0))])]"

definition hoverColour :: jsvalue where
  "hoverColour = Obj [(''&:hover'', Obj [(''color'', Str ''red'')])]"

text \<open>
  Why nested contents do not reach the fingerprint: under a single top-level key \<open>k\<close>, the
  replacer is \<open>[k]\<close>, and a nested mapping that has no key \<open>k\<close> is serialised as \<^verbatim>\<open>{}\<close>.
\<close>

lemma ownEntries_single: "ownEntries [p] = [p]"
  by (cases p) (simp add: ownEntries_def)

lemma nested_keys_dropped:
  assumes "k \<notin> fst ` set n"
  shows "stringifySorted (Obj [(k, Obj n)]) = Inr (''{'' @ quoteJSONString k @ '':{}}'')"
proof -
  from assms have absent: "map_of n k = None"
    by (simp add: map_of_eq_None_iff)
  have keys: "propertyList (sort (objectKeys (Obj [(k, Obj n)]))) = [k]"
    by (simp add: objectKeys_def ownEntries_single)
  show ?thesis
    by (simp add: stringifySorted_def keys absent)
qed

lemma hover_serialisations:
  "stringifySorted hoverOpacity = stringifySorted hoverColour"
proof -
  have "stringifySorted hoverOpacity = Inr (''{'' @ quoteJSONString ''&:hover'' @ '':{}}'')"
    unfolding hoverOpacity_def by (rule nested_keys_dropped) simp
  moreover
  have "stringifySorted hoverColour = Inr (''{'' @ quoteJSONString ''&:hover'' @ '':{}}'')"
    unfolding hoverColour_def by (rule nested_keys_dropped) simp
  ultimately show ?thesis
    by simp
qed

text \<open>
  C9: \<^verbatim>\<open>{'&:hover': {opacity: 1}}\<close> and \<^verbatim>\<open>{'&:hover': {color: 'red'}}\<close> are distinct, yet both
  serialise to \<^verbatim>\<open>{"&:hover":{}}\<close>, because the replacer of \<^verbatim>\<open>JSON.stringify\<close> is the list of
  top-level keys and the keys inside the nested mapping are not in it; so their
  fingerprints are equal under every options value. With caching enabled, \<^verbatim>\<open>createStyle\<close>
  on the second description after the first returns the first one's identifier, and the
  only text the Sink ever gets is the first one's: the second's rule text is not produced.
\<close>

theorem nested_contents_collide:
  "hoverOpacity \<noteq> hoverColour
   \<and> stringifySorted hoverOpacity = stringifySorted hoverColour
   \<and> (\<forall>options. createCacheKey hoverOpacity options = createCacheKey hoverColour options)
   \<and> fst (createStyle envA hoverOpacity None (newManager envA)) = ''css-k3j9x2ablfls''
   \<and> fst (createStyle envB hoverColour None
            (snd (createStyle envA hoverOpacity None (newManager envA))))
       = ''css-k3j9x2ablfls''
   \<and> sinkCalls (snd (createStyle envB hoverColour None
            (snd (createStyle envA hoverOpacity None (newManager envA)))))
       = [''.css-k3j9x2ablfls:hover {'' @ NL @ ''  opacity: 1;'' @ NL @ ''}'']
   \<and> deferred (snd (createStyle envB hoverColour None
            (snd (createStyle envA hoverOpacity None (newManager envA)))))
       = []
   \<and> ruleTextOf envB hoverColour None (newManager envA)
       = ''.css-q8w1z5cdlflz:hover {'' @ NL @ ''  color: red;'' @ NL @ ''}''"
proof -
  have distinct: "hoverOpacity \<noteq> hoverColour"
    by (simp add: hoverOpacity_def hoverColour_def)
  have same: "stringifySorted hoverOpacity = stringifySorted hoverColour"
    by (rule hover_serialisations)
  have keys: "\<forall>options. createCacheKey hoverOpacity options = createCacheKey hoverColour options"
    by (simp add: createCacheKey_def same)
  have run: "fst (createStyle envA hoverOpacity None (newManager envA)) = ''css-k3j9x2ablfls''
   \<and> fst (createStyle envB hoverColour None
            (snd (createStyle envA hoverOpacity None (newManager envA))))
       = ''css-k3j9x2ablfls''
   \<and> sinkCalls (snd (createStyle envB hoverColour None
            (snd (createStyle envA hoverOpacity None (newManager envA)))))
       = [''.css-k3j9x2ablfls:hover {'' @ NL @ ''  opacity: 1;'' @ NL @ ''}'']
   \<and> deferred (snd (createStyle envB hoverColour None
            (snd (createStyle envA hoverOpacity None (newManager envA)))))
       = []
   \<and> ruleTextOf envB hoverColour None (newManager envA)
       = ''.css-q8w1z5cdlflz:hover {'' @ NL @ ''  color: red;'' @ NL @ ''}''"
    by code_simp
  from distinct same keys run show ?thesis by simp
qed

section \<open>A style function called without argument\<close>

text \<open>
  C10: for every style function \<open>f\<close>, the closure \<^verbatim>\<open>css(f)\<close> called without argument returns
  \<^verbatim>\<open>'css-error'\<close>; nothing is thrown, and the manager (the existing one, or the one the call
  creates when there is none yet) is left as it is: no style compiled, handed to the Sink
  or cached.
\<close>

theorem css_function_without_argument:
  "css (StyleFunction f) options None e g = (''css-error'', Some (getInstance e g))
   \<and> css (StyleFunction f) options None e (Some m) = (''css-error'', Some m)"
  by (simp add: css_def getInstance_def)

theorem css_function_without_argument_witness:
  "css (StyleFunction (\<lambda>size :: nat. Inr (Obj [(''padding'', Num (Finite (int size) 0))])))
       None None envA None
     = (''css-error'', Some (newManager envA))
   \<and> styleCache (newManager envA) = [] \<and> sinkCalls (newManager envA) = []
   \<and> deferred (newManager envA) = []"
  using css_function_without_argument
          [of "\<lambda>size :: nat. Inr (Obj [(''padding'', Num (Finite (int size) 0))])"
              None envA None "newManager envA"]
  by (simp add: getInstance_def newManager_def)

end
